theory Spec2Isabelle
  imports Main
begin

section \<open>Decoded JSON values and the Python operations applied to them\<close>

text \<open>
  The module \<open>qbreader/types.py\<close> receives JSON that has already been decoded into
  Python values (\<open>dict[str, Any]\<close>). A decoded value is \<open>None\<close>, a boolean, an integer, a
  string, a list or a dictionary with string keys. A dictionary is an association list
  in insertion order; a key is looked up with \<open>map_of\<close>. Floating-point numbers are left
  out of the model.
\<close>

datatype json =
    JNull
  | JBool bool
  | JInt int
  | JStr string
  | JArr "json list"
  | JObj "(string \<times> json) list"

text \<open>
  The exceptions the module can raise. \<open>KeyError\<close> carries the missing key,
  \<open>ValueError\<close> the rejected value and the name of the enum class that rejected it.
\<close>

datatype error =
    KeyError string
  | ValueError json string
  | TypeError
  | AttributeError

text \<open>Sequencing of two fallible evaluations: the first exception raised wins.\<close>

definition bindE :: "error + 'a \<Rightarrow> ('a \<Rightarrow> error + 'b) \<Rightarrow> error + 'b" where
  "bindE m f = (case m of Inl e \<Rightarrow> Inl e | Inr x \<Rightarrow> f x)"

text \<open>A list comprehension \<open>[f(x) for x in xs]\<close>: left to right, stopping at the first exception.\<close>

fun map_res :: "('a \<Rightarrow> error + 'b) \<Rightarrow> 'a list \<Rightarrow> error + 'b list" where
  "map_res f [] = Inr []"
| "map_res f (x # xs) =
     (case f x of
        Inl e \<Rightarrow> Inl e
      | Inr y \<Rightarrow> (case map_res f xs of Inl e \<Rightarrow> Inl e | Inr ys \<Rightarrow> Inr (y # ys)))"

text \<open>Truth value of a decoded value, as \<open>x if x else y\<close> tests it.\<close>

fun py_truthy :: "json \<Rightarrow> bool" where
  "py_truthy JNull = False"
| "py_truthy (JBool b) = b"
| "py_truthy (JInt i) = (i \<noteq> 0)"
| "py_truthy (JStr s) = (s \<noteq> [])"
| "py_truthy (JArr xs) = (xs \<noteq> [])"
| "py_truthy (JObj kvs) = (kvs \<noteq> [])"

text \<open>
  Subscription \<open>json[key]\<close> with a string key: \<open>KeyError\<close> on a dictionary without the key,
  \<open>TypeError\<close> on every value that is not a dictionary.
\<close>

fun py_getitem :: "json \<Rightarrow> string \<Rightarrow> error + json" where
  "py_getitem (JObj kvs) k =
     (case map_of kvs k of None \<Rightarrow> Inl (KeyError k) | Some v \<Rightarrow> Inr v)"
| "py_getitem _ k = Inl TypeError"

text \<open>
  The method call \<open>json.get(key, default)\<close>, the default already evaluated: only a
  dictionary has the method.
\<close>

fun py_get :: "json \<Rightarrow> string \<Rightarrow> json \<Rightarrow> error + json" where
  "py_get (JObj kvs) k d = (case map_of kvs k of None \<Rightarrow> Inr d | Some v \<Rightarrow> Inr v)"
| "py_get _ k d = Inl AttributeError"

text \<open>
  Iteration over a decoded value, as \<open>tuple(x)\<close> and \<open>for y in x\<close> perform it: a list yields
  its elements, a string its characters, a dictionary its keys; the other values are not
  iterable.
\<close>

fun py_iter :: "json \<Rightarrow> error + json list" where
  "py_iter (JArr xs) = Inr xs"
| "py_iter (JStr s) = Inr (map (\<lambda>c. JStr [c]) s)"
| "py_iter (JObj kvs) = Inr (map (\<lambda>kv. JStr (fst kv)) kvs)"
| "py_iter _ = Inl TypeError"

subsection \<open>The built-in \<open>str\<close>\<close>

definition digit_char :: "nat \<Rightarrow> char" where
  "digit_char n = ''0123456789abcdef'' ! (n mod 16)"

fun nat_digits :: "nat \<Rightarrow> string" where
  "nat_digits n = (if n < 10 then [digit_char n] else nat_digits (n div 10) @ [digit_char (n mod 10)])"

declare nat_digits.simps [simp del]

definition int_str :: "int \<Rightarrow> string" where
  "int_str i = (if i < 0 then CHR ''-'' # nat_digits (nat (- i)) else nat_digits (nat i))"

text \<open>
  \<open>repr\<close> of a string whose code points are below 256: single quotes unless the string
  holds a single quote and no double quote; the quote and the backslash are escaped, and
  so is every character that is not printable.
\<close>

definition printable :: "char \<Rightarrow> bool" where
  "printable c = (let n = (of_char c :: nat) in
     (32 \<le> n \<and> n < 127) \<or> (160 < n \<and> n \<noteq> 173))"

definition escape_char :: "char \<Rightarrow> char \<Rightarrow> string" where
  "escape_char q c =
     (if c = q \<or> c = CHR 0x5C then [CHR 0x5C, c]
      else if c = CHR 0x09 then [CHR 0x5C, CHR ''t'']
      else if c = CHR 0x0A then [CHR 0x5C, CHR ''n'']
      else if c = CHR 0x0D then [CHR 0x5C, CHR ''r'']
      else if printable c then [c]
      else [CHR 0x5C, CHR ''x'', digit_char (of_char c div 16), digit_char (of_char c mod 16)])"

definition repr_str :: "string \<Rightarrow> string" where
  "repr_str s =
     (let q = (if CHR 0x27 \<in> set s \<and> CHR 0x22 \<notin> set s then CHR 0x22 else CHR 0x27)
      in q # concat (map (escape_char q) s) @ [q])"

fun join :: "string \<Rightarrow> string list \<Rightarrow> string" where
  "join sep [] = []"
| "join sep [x] = x"
| "join sep (x # y # ys) = x @ sep @ join sep (y # ys)"

primrec py_repr :: "json \<Rightarrow> string" where
  "py_repr JNull = ''None''"
| "py_repr (JBool b) = (if b then ''True'' else ''False'')"
| "py_repr (JInt i) = int_str i"
| "py_repr (JStr s) = repr_str s"
| "py_repr (JArr xs) = ''['' @ join '', '' (map py_repr xs) @ '']''"
| "py_repr (JObj kvs) =
     ''{'' @ join '', '' (map (\<lambda>kv. repr_str (fst kv) @ '': '' @ snd kv) (map (map_prod id py_repr) kvs)) @ ''}''"

text \<open>\<open>str(x)\<close>: a string is returned as it is, every other value is printed as \<open>repr\<close> prints it.\<close>

definition py_str :: "json \<Rightarrow> string" where
  "py_str v = (case v of JStr s \<Rightarrow> s | _ \<Rightarrow> py_repr v)"

section \<open>Taxonomy enums\<close>

text \<open>
  The three \<open>StrEnum\<close> classes. For each: the members, the value of a member (its
  canonical string, which is also what \<open>str\<close> of the member returns), and the members in
  definition order.
\<close>

datatype Category =
    LITERATURE | HISTORY | SCIENCE | FINE_ARTS | RELIGION | MYTHOLOGY | PHILOSOPHY
  | SOCIAL_SCIENCE | CURRENT_EVENTS | GEOGRAPHY | OTHER_ACADEMIC | TRASH

fun Category_value :: "Category \<Rightarrow> string" where
  "Category_value LITERATURE = ''Literature''"
| "Category_value HISTORY = ''History''"
| "Category_value SCIENCE = ''Science''"
| "Category_value FINE_ARTS = ''Fine Arts''"
| "Category_value RELIGION = ''Religion''"
| "Category_value MYTHOLOGY = ''Mythology''"
| "Category_value PHILOSOPHY = ''Philosophy''"
| "Category_value SOCIAL_SCIENCE = ''Social Science''"
| "Category_value CURRENT_EVENTS = ''Current Events''"
| "Category_value GEOGRAPHY = ''Geography''"
| "Category_value OTHER_ACADEMIC = ''Other Academic''"
| "Category_value TRASH = ''Trash''"

definition Category_members :: "Category list" where
  "Category_members =
     [LITERATURE, HISTORY, SCIENCE, FINE_ARTS, RELIGION, MYTHOLOGY, PHILOSOPHY,
      SOCIAL_SCIENCE, CURRENT_EVENTS, GEOGRAPHY, OTHER_ACADEMIC, TRASH]"

datatype Subcategory =
    AMERICAN_LITERATURE | BRITISH_LITERATURE | CLASSICAL_LITERATURE | EUROPEAN_LITERATURE
  | WORLD_LITERATURE | OTHER_LITERATURE
  | AMERICAN_HISTORY | ANCIENT_HISTORY | EUROPEAN_HISTORY | WORLD_HISTORY | OTHER_HISTORY
  | BIOLOGY | CHEMISTRY | PHYSICS | MATH | OTHER_SCIENCE
  | VISUAL_FINE_ARTS | AUDITORY_FINE_ARTS | OTHER_FINE_ARTS

fun Subcategory_value :: "Subcategory \<Rightarrow> string" where
  "Subcategory_value AMERICAN_LITERATURE = ''American Literature''"
| "Subcategory_value BRITISH_LITERATURE = ''British Literature''"
| "Subcategory_value CLASSICAL_LITERATURE = ''Classical Literature''"
| "Subcategory_value EUROPEAN_LITERATURE = ''European Literature''"
| "Subcategory_value WORLD_LITERATURE = ''World Literature''"
| "Subcategory_value OTHER_LITERATURE = ''Other Literature''"
| "Subcategory_value AMERICAN_HISTORY = ''American History''"
| "Subcategory_value ANCIENT_HISTORY = ''Ancient History''"
| "Subcategory_value EUROPEAN_HISTORY = ''European History''"
| "Subcategory_value WORLD_HISTORY = ''World History''"
| "Subcategory_value OTHER_HISTORY = ''Other History''"
| "Subcategory_value BIOLOGY = ''Biology''"
| "Subcategory_value CHEMISTRY = ''Chemistry''"
| "Subcategory_value PHYSICS = ''Physics''"
| "Subcategory_value MATH = ''Math''"
| "Subcategory_value OTHER_SCIENCE = ''Other Science''"
| "Subcategory_value VISUAL_FINE_ARTS = ''Visual Fine Arts''"
| "Subcategory_value AUDITORY_FINE_ARTS = ''Auditory Fine Arts''"
| "Subcategory_value OTHER_FINE_ARTS = ''Other Fine Arts''"

definition Subcategory_members :: "Subcategory list" where
  "Subcategory_members =
     [AMERICAN_LITERATURE, BRITISH_LITERATURE, CLASSICAL_LITERATURE, EUROPEAN_LITERATURE,
      WORLD_LITERATURE, OTHER_LITERATURE,
      AMERICAN_HISTORY, ANCIENT_HISTORY, EUROPEAN_HISTORY, WORLD_HISTORY, OTHER_HISTORY,
      BIOLOGY, CHEMISTRY, PHYSICS, MATH, OTHER_SCIENCE,
      VISUAL_FINE_ARTS, AUDITORY_FINE_ARTS, OTHER_FINE_ARTS]"

datatype Difficulty =
    UNRATED | MS | HS_EASY | HS_REGS | HS_HARD | HS_NATS
  | ONE_DOT | TWO_DOT | THREE_DOT | FOUR_DOT | OPEN

fun Difficulty_value :: "Difficulty \<Rightarrow> string" where
  "Difficulty_value UNRATED = ''0''"
| "Difficulty_value MS = ''1''"
| "Difficulty_value HS_EASY = ''2''"
| "Difficulty_value HS_REGS = ''3''"
| "Difficulty_value HS_HARD = ''4''"
| "Difficulty_value HS_NATS = ''5''"
| "Difficulty_value ONE_DOT = ''6''"
| "Difficulty_value TWO_DOT = ''7''"
| "Difficulty_value THREE_DOT = ''8''"
| "Difficulty_value FOUR_DOT = ''9''"
| "Difficulty_value OPEN = ''10''"

definition Difficulty_members :: "Difficulty list" where
  "Difficulty_members =
     [UNRATED, MS, HS_EASY, HS_REGS, HS_HARD, HS_NATS,
      ONE_DOT, TWO_DOT, THREE_DOT, FOUR_DOT, OPEN]"

text \<open>
  Calling an enum class on a value, \<open>Category(x)\<close>: the member whose value equals \<open>x\<close>, and
  \<open>ValueError\<close> when there is none. The values are strings, so only a string can equal one.
\<close>

definition enum_call :: "string \<Rightarrow> ('a \<Rightarrow> string) \<Rightarrow> 'a list \<Rightarrow> json \<Rightarrow> error + 'a" where
  "enum_call cls value_of members v =
     (case v of
        JStr s \<Rightarrow>
          (case find (\<lambda>m. value_of m = s) members of
             Some m \<Rightarrow> Inr m
           | None \<Rightarrow> Inl (ValueError v cls))
      | _ \<Rightarrow> Inl (ValueError v cls))"

definition Category_call :: "json \<Rightarrow> error + Category" where
  "Category_call = enum_call ''Category'' Category_value Category_members"

definition Subcategory_call :: "json \<Rightarrow> error + Subcategory" where
  "Subcategory_call = enum_call ''Subcategory'' Subcategory_value Subcategory_members"

definition Difficulty_call :: "json \<Rightarrow> error + Difficulty" where
  "Difficulty_call = enum_call ''Difficulty'' Difficulty_value Difficulty_members"

section \<open>Question entities\<close>

text \<open>
  The attributes carry no run-time type check, so a field that is copied from the input
  holds whatever decoded value the input had. The attributes that \<open>Tossup\<close> and \<open>Bonus\<close>
  share are suffixed \<open>_t\<close> and \<open>_b\<close>; \<open>set_t\<close> and \<open>set_b\<close> are the attribute \<open>set\<close>.
\<close>

record Tossup =
  question :: json
  formatted_answer :: json
  answer :: json
  category_t :: Category
  subcategory_t :: Subcategory
  set_t :: json
  year_t :: json
  packet_number_t :: json
  question_number_t :: json
  difficulty_t :: Difficulty

definition Tossup_init ::
  "json \<Rightarrow> json \<Rightarrow> json \<Rightarrow> Category \<Rightarrow> Subcategory \<Rightarrow> json \<Rightarrow> json \<Rightarrow> json \<Rightarrow> json \<Rightarrow> Difficulty \<Rightarrow> Tossup"
where
  "Tossup_init q fa a c sc s y pn qn d =
     \<lparr> question = q,
       formatted_answer = (if py_truthy fa then fa else a),
       answer = a,
       category_t = c,
       subcategory_t = sc,
       set_t = s,
       year_t = y,
       packet_number_t = pn,
       question_number_t = qn,
       difficulty_t = d \<rparr>"

text \<open>
  \<open>Tossup.from_json\<close>. The keyword arguments are evaluated in the order they are written;
  the default of \<open>json.get\<close> is an argument of the call, so \<open>json["answer"]\<close> is evaluated
  before the lookup of \<open>formatted_answer\<close>.
\<close>

definition Tossup_from_json :: "json \<Rightarrow> error + Tossup" where
  "Tossup_from_json j =
     bindE (py_getitem j ''question'') (\<lambda>q.
     bindE (py_getitem j ''answer'') (\<lambda>dflt.
     bindE (py_get j ''formatted_answer'' dflt) (\<lambda>fa.
     bindE (py_getitem j ''answer'') (\<lambda>a.
     bindE (py_getitem j ''category'') (\<lambda>c0.
     bindE (Category_call c0) (\<lambda>c.
     bindE (py_getitem j ''subcategory'') (\<lambda>sc0.
     bindE (Subcategory_call sc0) (\<lambda>sc.
     bindE (py_getitem j ''setName'') (\<lambda>s.
     bindE (py_getitem j ''setYear'') (\<lambda>y.
     bindE (py_getitem j ''packetNumber'') (\<lambda>pn.
     bindE (py_getitem j ''questionNumber'') (\<lambda>qn.
     bindE (py_getitem j ''difficulty'') (\<lambda>d0.
     bindE (Difficulty_call (JStr (py_str d0))) (\<lambda>d.
     Inr (Tossup_init q fa a c sc s y pn qn d)))))))))))))))"

text \<open>\<open>str(tossup)\<close>: \<open>__str__\<close> returns the question, and \<open>str\<close> rejects a result that is not a string.\<close>

definition Tossup_str :: "Tossup \<Rightarrow> error + string" where
  "Tossup_str t = (case question t of JStr s \<Rightarrow> Inr s | _ \<Rightarrow> Inl TypeError)"

record Bonus =
  leadin :: json
  parts :: "json list"
  formatted_answers :: "json list"
  answers :: "json list"
  category_b :: Category
  subcategory_b :: Subcategory
  set_b :: json
  year_b :: json
  packet_number_b :: json
  question_number_b :: json
  difficulty_b :: Difficulty

text \<open>\<open>Bonus.__init__\<close>: the three \<open>tuple(...)\<close> calls run in the order of the assignments.\<close>

definition Bonus_init ::
  "json \<Rightarrow> json \<Rightarrow> json \<Rightarrow> json \<Rightarrow> Category \<Rightarrow> Subcategory \<Rightarrow> json \<Rightarrow> json \<Rightarrow> json \<Rightarrow> json \<Rightarrow> Difficulty
     \<Rightarrow> error + Bonus"
where
  "Bonus_init l ps fas as c sc s y pn qn d =
     bindE (py_iter ps) (\<lambda>ps'.
     bindE (py_iter (if py_truthy fas then fas else as)) (\<lambda>fas'.
     bindE (py_iter as) (\<lambda>as'.
     Inr \<lparr> leadin = l,
           parts = ps',
           formatted_answers = fas',
           answers = as',
           category_b = c,
           subcategory_b = sc,
           set_b = s,
           year_b = y,
           packet_number_b = pn,
           question_number_b = qn,
           difficulty_b = d \<rparr>)))"

definition Bonus_from_json :: "json \<Rightarrow> error + Bonus" where
  "Bonus_from_json j =
     bindE (py_getitem j ''leadin'') (\<lambda>l.
     bindE (py_getitem j ''parts'') (\<lambda>ps.
     bindE (py_getitem j ''answers'') (\<lambda>dflt.
     bindE (py_get j ''formatted_answers'' dflt) (\<lambda>fas.
     bindE (py_getitem j ''answers'') (\<lambda>as.
     bindE (py_getitem j ''category'') (\<lambda>c0.
     bindE (Category_call c0) (\<lambda>c.
     bindE (py_getitem j ''subcategory'') (\<lambda>sc0.
     bindE (Subcategory_call sc0) (\<lambda>sc.
     bindE (py_getitem j ''setName'') (\<lambda>s.
     bindE (py_getitem j ''setYear'') (\<lambda>y.
     bindE (py_getitem j ''packetNumber'') (\<lambda>pn.
     bindE (py_getitem j ''questionNumber'') (\<lambda>qn.
     bindE (py_getitem j ''difficulty'') (\<lambda>d0.
     bindE (Difficulty_call (JStr (py_str d0))) (\<lambda>d.
     Bonus_init l ps fas as c sc s y pn qn d)))))))))))))))"

text \<open>\<open>sep.join(xs)\<close>: every item must be a string.\<close>

fun the_strs :: "json list \<Rightarrow> error + string list" where
  "the_strs [] = Inr []"
| "the_strs (JStr s # xs) = (case the_strs xs of Inl e \<Rightarrow> Inl e | Inr ss \<Rightarrow> Inr (s # ss))"
| "the_strs (_ # xs) = Inl TypeError"

definition py_join :: "string \<Rightarrow> json list \<Rightarrow> error + string" where
  "py_join sep xs = bindE (the_strs xs) (\<lambda>ss. Inr (join sep ss))"

definition Bonus_str :: "Bonus \<Rightarrow> error + string" where
  "Bonus_str b = py_join [CHR 0x0A] (parts b)"

section \<open>Query response aggregate\<close>

record QueryResponse =
  tossups :: "Tossup list"
  bonuses :: "Bonus list"
  tossups_found :: json
  bonuses_found :: json
  query_string :: json

definition QueryResponse_from_json :: "json \<Rightarrow> error + QueryResponse" where
  "QueryResponse_from_json j =
     bindE (py_getitem j ''tossups'') (\<lambda>tj.
     bindE (py_getitem tj ''questionArray'') (\<lambda>tarr.
     bindE (py_iter tarr) (\<lambda>tjs.
     bindE (map_res Tossup_from_json tjs) (\<lambda>ts.
     bindE (py_getitem j ''bonuses'') (\<lambda>bj.
     bindE (py_getitem bj ''questionArray'') (\<lambda>barr.
     bindE (py_iter barr) (\<lambda>bjs.
     bindE (map_res Bonus_from_json bjs) (\<lambda>bs.
     bindE (py_getitem j ''tossups'') (\<lambda>tj'.
     bindE (py_getitem tj' ''count'') (\<lambda>tc.
     bindE (py_getitem j ''bonuses'') (\<lambda>bj'.
     bindE (py_getitem bj' ''count'') (\<lambda>bc.
     bindE (py_getitem j ''queryString'') (\<lambda>qs.
     Inr \<lparr> tossups = ts,
           bonuses = bs,
           tossups_found = tc,
           bonuses_found = bc,
           query_string = qs \<rparr>)))))))))))))"

definition QueryResponse_str :: "QueryResponse \<Rightarrow> error + string" where
  "QueryResponse_str r =
     bindE (map_res Tossup_str (tossups r)) (\<lambda>ts.
     bindE (map_res Bonus_str (bonuses r)) (\<lambda>bs.
     Inr (join [CHR 0x0A, CHR 0x0A] ts @ [CHR 0x0A, CHR 0x0A, CHR 0x0A] @ join [CHR 0x0A, CHR 0x0A] bs)))"

section \<open>Basic facts about the model\<close>

lemma bindE_Inr_iff: "bindE m f = Inr y \<longleftrightarrow> (\<exists>x. m = Inr x \<and> f x = Inr y)"
  by (cases m) (simp_all add: bindE_def)

lemma bindE_simps [simp]: "bindE (Inl e) f = Inl e" "bindE (Inr x) f = f x"
  by (simp_all add: bindE_def)

lemma left_inverse_inj:
  fixes g :: "'b \<Rightarrow> 'e + 'a"
  assumes "\<And>x. g (f x) = Inr x" and "f a = f b"
  shows "a = b"
proof -
  have "g (f a) = g (f b)" using assms(2) by simp
  then have "(Inr a :: 'e + 'a) = Inr b" by (simp only: assms(1))
  then show ?thesis by simp
qed

lemma enum_call_InrD:
  "enum_call cls value_of members v = Inr m \<Longrightarrow> v = JStr (value_of m) \<and> m \<in> set members"
  by (cases v) (auto simp: enum_call_def find_Some_iff split: option.splits)

lemma enum_call_Inl:
  "\<forall>m \<in> set members. v \<noteq> JStr (value_of m) \<Longrightarrow>
     enum_call cls value_of members v = Inl (ValueError v cls)"
  by (cases v) (auto simp: enum_call_def find_None_iff split: option.splits)

lemma Category_call_value: "Category_call (JStr (Category_value c)) = Inr c"
  by (cases c) (simp_all add: Category_call_def enum_call_def Category_members_def)

lemma Subcategory_call_value: "Subcategory_call (JStr (Subcategory_value c)) = Inr c"
  by (cases c) (simp_all add: Subcategory_call_def enum_call_def Subcategory_members_def)

lemma Difficulty_call_value: "Difficulty_call (JStr (Difficulty_value c)) = Inr c"
  by (cases c) (simp_all add: Difficulty_call_def enum_call_def Difficulty_members_def)

lemma Category_call_InrD: "Category_call v = Inr c \<Longrightarrow> v = JStr (Category_value c)"
  unfolding Category_call_def by (drule enum_call_InrD) simp

lemma Subcategory_call_InrD: "Subcategory_call v = Inr c \<Longrightarrow> v = JStr (Subcategory_value c)"
  unfolding Subcategory_call_def by (drule enum_call_InrD) simp

lemma Difficulty_call_InrD: "Difficulty_call v = Inr c \<Longrightarrow> v = JStr (Difficulty_value c)"
  unfolding Difficulty_call_def by (drule enum_call_InrD) simp

lemma Category_members_all: "c \<in> set Category_members"
  by (cases c) (simp_all add: Category_members_def)

lemma Subcategory_members_all: "c \<in> set Subcategory_members"
  by (cases c) (simp_all add: Subcategory_members_def)

lemma Difficulty_members_all: "c \<in> set Difficulty_members"
  by (cases c) (simp_all add: Difficulty_members_def)

section \<open>Round trip of the taxonomy enums\<close>

text \<open>
  Claim C1. For each of the three enums: a canonical string (the value of a member) is
  accepted by the enum call, and the member returned has that string as its value; every
  member is listed, its value is accepted and yields that member again; and two members
  with the same value are the same member, so a member has exactly one canonical string
  and a canonical string exactly one member.
\<close>

theorem enum_round_trip:
  "(s \<in> set (map Category_value Category_members) \<longrightarrow>
      (\<exists>c. Category_call (JStr s) = Inr c \<and> Category_value c = s))
   \<and> (s \<in> set (map Subcategory_value Subcategory_members) \<longrightarrow>
      (\<exists>sc. Subcategory_call (JStr s) = Inr sc \<and> Subcategory_value sc = s))
   \<and> (s \<in> set (map Difficulty_value Difficulty_members) \<longrightarrow>
      (\<exists>d. Difficulty_call (JStr s) = Inr d \<and> Difficulty_value d = s))
   \<and> c \<in> set Category_members \<and> Category_call (JStr (Category_value c)) = Inr c
   \<and> sc \<in> set Subcategory_members \<and> Subcategory_call (JStr (Subcategory_value sc)) = Inr sc
   \<and> d \<in> set Difficulty_members \<and> Difficulty_call (JStr (Difficulty_value d)) = Inr d
   \<and> (Category_value c = Category_value c' \<longrightarrow> c = c')
   \<and> (Subcategory_value sc = Subcategory_value sc' \<longrightarrow> sc = sc')
   \<and> (Difficulty_value d = Difficulty_value d' \<longrightarrow> d = d')"
proof -
  have inj_c: "Category_value c = Category_value c' \<longrightarrow> c = c'"
    by (rule impI, rule left_inverse_inj [of "\<lambda>s. Category_call (JStr s)"], rule Category_call_value)
  have inj_sc: "Subcategory_value sc = Subcategory_value sc' \<longrightarrow> sc = sc'"
    by (rule impI, rule left_inverse_inj [of "\<lambda>s. Subcategory_call (JStr s)"], rule Subcategory_call_value)
  have inj_d: "Difficulty_value d = Difficulty_value d' \<longrightarrow> d = d'"
    by (rule impI, rule left_inverse_inj [of "\<lambda>s. Difficulty_call (JStr s)"], rule Difficulty_call_value)
  have p_c: "s \<in> set (map Category_value Category_members) \<longrightarrow>
      (\<exists>c. Category_call (JStr s) = Inr c \<and> Category_value c = s)"
    by (auto simp: Category_call_value)
  have p_sc: "s \<in> set (map Subcategory_value Subcategory_members) \<longrightarrow>
      (\<exists>sc. Subcategory_call (JStr s) = Inr sc \<and> Subcategory_value sc = s)"
    by (auto simp: Subcategory_call_value)
  have p_d: "s \<in> set (map Difficulty_value Difficulty_members) \<longrightarrow>
      (\<exists>d. Difficulty_call (JStr s) = Inr d \<and> Difficulty_value d = s)"
    by (auto simp: Difficulty_call_value)
  from p_c p_sc p_d inj_c inj_sc inj_d show ?thesis
    by (intro conjI)
      (assumption | rule Category_call_value Subcategory_call_value Difficulty_call_value
        Category_members_all Subcategory_members_all Difficulty_members_all)+
qed

text \<open>The round trip at \<open>"Fine Arts"\<close> and at the member \<open>TRASH\<close>.\<close>

theorem enum_round_trip_witness:
  "''Fine Arts'' \<in> set (map Category_value Category_members)
   \<and> (\<exists>c. Category_call (JStr ''Fine Arts'') = Inr c \<and> Category_value c = ''Fine Arts'')
   \<and> Category_call (JStr (Category_value TRASH)) = Inr TRASH"
proof -
  have m: "''Fine Arts'' \<in> set (map Category_value Category_members)"
    by (simp add: Category_members_def)
  note t = enum_round_trip [of "''Fine Arts''" TRASH MATH OPEN TRASH MATH OPEN]
  have a: "\<exists>c. Category_call (JStr ''Fine Arts'') = Inr c \<and> Category_value c = ''Fine Arts''"
    using t [THEN conjunct1] m by (rule mp)
  have b: "Category_call (JStr (Category_value TRASH)) = Inr TRASH"
    using t by (elim conjE)
  from m a b show ?thesis by (intro conjI)
qed

section \<open>Success and failure of the entity constructors\<close>

text \<open>
  When a constructor succeeds, every key it subscripts is present and every enum call
  accepted its argument; when it fails, the exception is one of a few kinds.
\<close>

lemma py_getitem_JObj_Inr [simp]:
  "py_getitem (JObj kvs) k = Inr v \<longleftrightarrow> map_of kvs k = Some v"
  by (simp split: option.splits)


lemma py_get_JObj_Inr [simp]:
  "py_get (JObj kvs) k d = Inr v \<longleftrightarrow> v = (case map_of kvs k of None \<Rightarrow> d | Some w \<Rightarrow> w)"
  by (auto split: option.splits)

lemma py_getitem_Inr_dict: "py_getitem j k = Inr v \<Longrightarrow> \<exists>kvs. j = JObj kvs"
  by (cases j) simp_all

lemma enum_call_InlD:
  "enum_call cls value_of members v = Inl e \<Longrightarrow> e = ValueError v cls"
  by (cases v) (auto simp: enum_call_def split: option.splits)



lemma Difficulty_call_InlD: "Difficulty_call v = Inl e \<Longrightarrow> e = ValueError v ''Difficulty''"
  unfolding Difficulty_call_def by (rule enum_call_InlD)

lemma Tossup_from_json_Inr_iff:
  "Tossup_from_json (JObj kvs) = Inr t \<longleftrightarrow>
     (\<exists>q a c0 c sc0 sc s y pn qn d0 d.
        map_of kvs ''question'' = Some q \<and>
        map_of kvs ''answer'' = Some a \<and>
        map_of kvs ''category'' = Some c0 \<and> Category_call c0 = Inr c \<and>
        map_of kvs ''subcategory'' = Some sc0 \<and> Subcategory_call sc0 = Inr sc \<and>
        map_of kvs ''setName'' = Some s \<and>
        map_of kvs ''setYear'' = Some y \<and>
        map_of kvs ''packetNumber'' = Some pn \<and>
        map_of kvs ''questionNumber'' = Some qn \<and>
        map_of kvs ''difficulty'' = Some d0 \<and> Difficulty_call (JStr (py_str d0)) = Inr d \<and>
        t = Tossup_init q (case map_of kvs ''formatted_answer'' of None \<Rightarrow> a | Some v \<Rightarrow> v)
              a c sc s y pn qn d)"
  unfolding Tossup_from_json_def bindE_Inr_iff py_getitem_JObj_Inr py_get_JObj_Inr
  by auto

lemma Bonus_from_json_Inr_iff:
  "Bonus_from_json (JObj kvs) = Inr b \<longleftrightarrow>
     (\<exists>l ps as c0 c sc0 sc s y pn qn d0 d.
        map_of kvs ''leadin'' = Some l \<and>
        map_of kvs ''parts'' = Some ps \<and>
        map_of kvs ''answers'' = Some as \<and>
        map_of kvs ''category'' = Some c0 \<and> Category_call c0 = Inr c \<and>
        map_of kvs ''subcategory'' = Some sc0 \<and> Subcategory_call sc0 = Inr sc \<and>
        map_of kvs ''setName'' = Some s \<and>
        map_of kvs ''setYear'' = Some y \<and>
        map_of kvs ''packetNumber'' = Some pn \<and>
        map_of kvs ''questionNumber'' = Some qn \<and>
        map_of kvs ''difficulty'' = Some d0 \<and> Difficulty_call (JStr (py_str d0)) = Inr d \<and>
        Bonus_init l ps (case map_of kvs ''formatted_answers'' of None \<Rightarrow> as | Some v \<Rightarrow> v)
              as c sc s y pn qn d = Inr b)"
  unfolding Bonus_from_json_def bindE_Inr_iff py_getitem_JObj_Inr py_get_JObj_Inr
  by auto

lemma Bonus_init_Inr_iff:
  "Bonus_init l ps fas as c sc s y pn qn d = Inr b \<longleftrightarrow>
     (\<exists>ps' fas' as'.
        py_iter ps = Inr ps' \<and>
        py_iter (if py_truthy fas then fas else as) = Inr fas' \<and>
        py_iter as = Inr as' \<and>
        b = \<lparr> leadin = l, parts = ps', formatted_answers = fas', answers = as',
              category_b = c, subcategory_b = sc, set_b = s, year_b = y,
              packet_number_b = pn, question_number_b = qn, difficulty_b = d \<rparr>)"
  unfolding Bonus_init_def bindE_Inr_iff
  by auto


lemma not_Inr_Inl: "(\<And>y. m \<noteq> Inr y) \<Longrightarrow> \<exists>e. m = Inl e"
  by (cases m) auto






lemma enum_call_not_member:
  assumes "s \<notin> set (map value_of members)"
  shows "enum_call cls value_of members (JStr s) = Inl (ValueError (JStr s) cls)"
proof (rule enum_call_Inl)
  show "\<forall>m\<in>set members. JStr s \<noteq> JStr (value_of m)"
    using assms by auto
qed

lemma Tossup_unrecognised_fails:
  assumes "map_of kvs ''category'' = Some (JStr s) \<and> s \<notin> set (map Category_value Category_members)
     \<or> map_of kvs ''subcategory'' = Some (JStr s) \<and> s \<notin> set (map Subcategory_value Subcategory_members)
     \<or> (\<exists>v. map_of kvs ''difficulty'' = Some v \<and> py_str v = s)
         \<and> s \<notin> set (map Difficulty_value Difficulty_members)"
  shows "\<exists>e. Tossup_from_json (JObj kvs) = Inl e"
proof (rule not_Inr_Inl)
  fix t
  show "Tossup_from_json (JObj kvs) \<noteq> Inr t"
  proof
    assume "Tossup_from_json (JObj kvs) = Inr t"
    then obtain c0 c sc0 sc d0 d where
      c: "map_of kvs ''category'' = Some c0" "Category_call c0 = Inr c" and
      sc: "map_of kvs ''subcategory'' = Some sc0" "Subcategory_call sc0 = Inr sc" and
      d: "map_of kvs ''difficulty'' = Some d0" "Difficulty_call (JStr (py_str d0)) = Inr d"
      unfolding Tossup_from_json_Inr_iff by blast
    have c0: "c0 = JStr (Category_value c)" using c(2) by (rule Category_call_InrD)
    have sc0: "sc0 = JStr (Subcategory_value sc)" using sc(2) by (rule Subcategory_call_InrD)
    have d0: "py_str d0 = Difficulty_value d" using Difficulty_call_InrD [OF d(2)] by simp
    from assms c(1) sc(1) d(1) c0 sc0 d0 show False
      using Category_members_all [of c] Subcategory_members_all [of sc] Difficulty_members_all [of d]
      by auto
  qed
qed

lemma Bonus_unrecognised_fails:
  assumes "map_of kvs ''category'' = Some (JStr s) \<and> s \<notin> set (map Category_value Category_members)
     \<or> map_of kvs ''subcategory'' = Some (JStr s) \<and> s \<notin> set (map Subcategory_value Subcategory_members)
     \<or> (\<exists>v. map_of kvs ''difficulty'' = Some v \<and> py_str v = s)
         \<and> s \<notin> set (map Difficulty_value Difficulty_members)"
  shows "\<exists>e. Bonus_from_json (JObj kvs) = Inl e"
proof (rule not_Inr_Inl)
  fix t
  show "Bonus_from_json (JObj kvs) \<noteq> Inr t"
  proof
    assume "Bonus_from_json (JObj kvs) = Inr t"
    then obtain c0 c sc0 sc d0 d where
      c: "map_of kvs ''category'' = Some c0" "Category_call c0 = Inr c" and
      sc: "map_of kvs ''subcategory'' = Some sc0" "Subcategory_call sc0 = Inr sc" and
      d: "map_of kvs ''difficulty'' = Some d0" "Difficulty_call (JStr (py_str d0)) = Inr d"
      unfolding Bonus_from_json_Inr_iff by blast
    have c0: "c0 = JStr (Category_value c)" using c(2) by (rule Category_call_InrD)
    have sc0: "sc0 = JStr (Subcategory_value sc)" using sc(2) by (rule Subcategory_call_InrD)
    have d0: "py_str d0 = Difficulty_value d" using Difficulty_call_InrD [OF d(2)] by simp
    from assms c(1) sc(1) d(1) c0 sc0 d0 show False
      using Category_members_all [of c] Subcategory_members_all [of sc] Difficulty_members_all [of d]
      by auto
  qed
qed


section \<open>Rejection of unrecognised enum values\<close>

text \<open>
  Claim C2. A string that is not the value of a member is rejected with \<open>ValueError\<close> by
  each enum call (for \<open>Difficulty\<close> after \<open>str\<close>, which leaves a string as it is): there is
  no case folding and no approximate match. Hence \<open>Tossup.from_json\<close> and
  \<open>Bonus.from_json\<close> fail on a record whose category, subcategory or difficulty is
  unrecognised; when the fields evaluated before the category are present, the failure
  is the \<open>ValueError\<close> of the enum call itself.
\<close>

theorem invalid_enum_value:
  "(s \<notin> set (map Category_value Category_members) \<longrightarrow>
      Category_call (JStr s) = Inl (ValueError (JStr s) ''Category''))
   \<and> (s \<notin> set (map Subcategory_value Subcategory_members) \<longrightarrow>
      Subcategory_call (JStr s) = Inl (ValueError (JStr s) ''Subcategory''))
   \<and> (s \<notin> set (map Difficulty_value Difficulty_members) \<longrightarrow>
      Difficulty_call (JStr (py_str (JStr s))) = Inl (ValueError (JStr s) ''Difficulty''))
   \<and> (map_of kvs ''category'' = Some (JStr s) \<and> s \<notin> set (map Category_value Category_members)
       \<or> map_of kvs ''subcategory'' = Some (JStr s)
           \<and> s \<notin> set (map Subcategory_value Subcategory_members)
       \<or> (\<exists>v. map_of kvs ''difficulty'' = Some v \<and> py_str v = s)
           \<and> s \<notin> set (map Difficulty_value Difficulty_members)
      \<longrightarrow> (\<exists>e. Tossup_from_json (JObj kvs) = Inl e) \<and> (\<exists>e. Bonus_from_json (JObj kvs) = Inl e))
   \<and> (map_of kvs ''category'' = Some (JStr s) \<and> s \<notin> set (map Category_value Category_members)
       \<and> map_of kvs ''question'' \<noteq> None \<and> map_of kvs ''answer'' \<noteq> None
      \<longrightarrow> Tossup_from_json (JObj kvs) = Inl (ValueError (JStr s) ''Category''))
   \<and> (map_of kvs ''category'' = Some (JStr s) \<and> s \<notin> set (map Category_value Category_members)
       \<and> map_of kvs ''leadin'' \<noteq> None \<and> map_of kvs ''parts'' \<noteq> None \<and> map_of kvs ''answers'' \<noteq> None
      \<longrightarrow> Bonus_from_json (JObj kvs) = Inl (ValueError (JStr s) ''Category''))"
proof (intro conjI impI)
  assume "s \<notin> set (map Category_value Category_members)"
  then show "Category_call (JStr s) = Inl (ValueError (JStr s) ''Category'')"
    unfolding Category_call_def by (rule enum_call_not_member)
next
  assume "s \<notin> set (map Subcategory_value Subcategory_members)"
  then show "Subcategory_call (JStr s) = Inl (ValueError (JStr s) ''Subcategory'')"
    unfolding Subcategory_call_def by (rule enum_call_not_member)
next
  assume "s \<notin> set (map Difficulty_value Difficulty_members)"
  then have "Difficulty_call (JStr s) = Inl (ValueError (JStr s) ''Difficulty'')"
    unfolding Difficulty_call_def by (rule enum_call_not_member)
  then show "Difficulty_call (JStr (py_str (JStr s))) = Inl (ValueError (JStr s) ''Difficulty'')"
    by (simp add: py_str_def)
next
  assume a: "map_of kvs ''category'' = Some (JStr s) \<and> s \<notin> set (map Category_value Category_members)
       \<or> map_of kvs ''subcategory'' = Some (JStr s)
           \<and> s \<notin> set (map Subcategory_value Subcategory_members)
       \<or> (\<exists>v. map_of kvs ''difficulty'' = Some v \<and> py_str v = s)
           \<and> s \<notin> set (map Difficulty_value Difficulty_members)"
  from a show "\<exists>e. Tossup_from_json (JObj kvs) = Inl e" by (rule Tossup_unrecognised_fails)
  from a show "\<exists>e. Bonus_from_json (JObj kvs) = Inl e" by (rule Bonus_unrecognised_fails)
next
  assume a: "map_of kvs ''category'' = Some (JStr s) \<and> s \<notin> set (map Category_value Category_members)
       \<and> map_of kvs ''question'' \<noteq> None \<and> map_of kvs ''answer'' \<noteq> None"
  then have "Category_call (JStr s) = Inl (ValueError (JStr s) ''Category'')"
    unfolding Category_call_def by (intro enum_call_not_member) simp
  with a show "Tossup_from_json (JObj kvs) = Inl (ValueError (JStr s) ''Category'')"
    by (auto simp: Tossup_from_json_def split: option.splits)
next
  assume a: "map_of kvs ''category'' = Some (JStr s) \<and> s \<notin> set (map Category_value Category_members)
       \<and> map_of kvs ''leadin'' \<noteq> None \<and> map_of kvs ''parts'' \<noteq> None \<and> map_of kvs ''answers'' \<noteq> None"
  then have "Category_call (JStr s) = Inl (ValueError (JStr s) ''Category'')"
    unfolding Category_call_def by (intro enum_call_not_member) simp
  with a show "Bonus_from_json (JObj kvs) = Inl (ValueError (JStr s) ''Category'')"
    by (auto simp: Bonus_from_json_def split: option.splits)
qed

text \<open>The lower-case \<open>"science"\<close> is not a category, and a tossup record carrying it is rejected.\<close>

theorem invalid_enum_value_witness:
  "''science'' \<notin> set (map Category_value Category_members)
   \<and> Category_call (JStr ''science'') = Inl (ValueError (JStr ''science'') ''Category'')
   \<and> Tossup_from_json (JObj
        [(''question'', JStr ''q''), (''answer'', JStr ''a''), (''category'', JStr ''science''),
         (''subcategory'', JStr ''Biology''), (''setName'', JStr ''s''), (''setYear'', JInt 2020),
         (''packetNumber'', JInt 1), (''questionNumber'', JInt 2), (''difficulty'', JInt 3)])
       = Inl (ValueError (JStr ''science'') ''Category'')"
proof -
  let ?kvs = "[(''question'', JStr ''q''), (''answer'', JStr ''a''), (''category'', JStr ''science''),
         (''subcategory'', JStr ''Biology''), (''setName'', JStr ''s''), (''setYear'', JInt 2020),
         (''packetNumber'', JInt 1), (''questionNumber'', JInt 2), (''difficulty'', JInt 3)]"
  have h: "''science'' \<notin> set (map Category_value Category_members)"
    by (simp add: Category_members_def)
  have h5: "map_of ?kvs ''category'' = Some (JStr ''science'')
       \<and> ''science'' \<notin> set (map Category_value Category_members)
       \<and> map_of ?kvs ''question'' \<noteq> None \<and> map_of ?kvs ''answer'' \<noteq> None"
    using h by simp
  note t = invalid_enum_value [of "''science''" ?kvs]
  have a: "Category_call (JStr ''science'') = Inl (ValueError (JStr ''science'') ''Category'')"
    using t [THEN conjunct1] h by (rule mp)
  have b: "Tossup_from_json (JObj ?kvs) = Inl (ValueError (JStr ''science'') ''Category'')"
    using t [THEN conjunct2, THEN conjunct2, THEN conjunct2, THEN conjunct2, THEN conjunct1] h5
    by (rule mp)
  from h a b show ?thesis by (intro conjI)
qed


section \<open>Missing required fields\<close>

text \<open>
  Claim C6. A mapping without \<open>question\<close> or \<open>answer\<close> makes \<open>Tossup.from_json\<close> fail
  with \<open>KeyError\<close>, and a mapping without \<open>leadin\<close>, \<open>parts\<close> or \<open>answers\<close> makes
  \<open>Bonus.from_json\<close> fail with \<open>KeyError\<close>; the key reported is one of the absent
  required keys. The result is the exception, so no entity is produced and no default
  is substituted.
\<close>

theorem missing_required_field:
  "(map_of kvs ''question'' = None \<or> map_of kvs ''answer'' = None \<longrightarrow>
      (\<exists>k. (k = ''question'' \<or> k = ''answer'') \<and> map_of kvs k = None
            \<and> Tossup_from_json (JObj kvs) = Inl (KeyError k)))
   \<and> (map_of kvs ''leadin'' = None \<or> map_of kvs ''parts'' = None \<or> map_of kvs ''answers'' = None \<longrightarrow>
      (\<exists>k. (k = ''leadin'' \<or> k = ''parts'' \<or> k = ''answers'') \<and> map_of kvs k = None
            \<and> Bonus_from_json (JObj kvs) = Inl (KeyError k)))"
proof (intro conjI impI)
  assume a: "map_of kvs ''question'' = None \<or> map_of kvs ''answer'' = None"
  show "\<exists>k. (k = ''question'' \<or> k = ''answer'') \<and> map_of kvs k = None
            \<and> Tossup_from_json (JObj kvs) = Inl (KeyError k)"
  proof (cases "map_of kvs ''question''")
    case None
    then have "Tossup_from_json (JObj kvs) = Inl (KeyError ''question'')"
      by (simp add: Tossup_from_json_def)
    with None show ?thesis by blast
  next
    case (Some q)
    with a have n: "map_of kvs ''answer'' = None" by simp
    with Some have "Tossup_from_json (JObj kvs) = Inl (KeyError ''answer'')"
      by (simp add: Tossup_from_json_def)
    with n show ?thesis by blast
  qed
next
  assume a: "map_of kvs ''leadin'' = None \<or> map_of kvs ''parts'' = None \<or> map_of kvs ''answers'' = None"
  show "\<exists>k. (k = ''leadin'' \<or> k = ''parts'' \<or> k = ''answers'') \<and> map_of kvs k = None
            \<and> Bonus_from_json (JObj kvs) = Inl (KeyError k)"
  proof (cases "map_of kvs ''leadin''")
    case None
    then have "Bonus_from_json (JObj kvs) = Inl (KeyError ''leadin'')"
      by (simp add: Bonus_from_json_def)
    with None show ?thesis by blast
  next
    case l: (Some l)
    show ?thesis
    proof (cases "map_of kvs ''parts''")
      case None
      with l have "Bonus_from_json (JObj kvs) = Inl (KeyError ''parts'')"
        by (simp add: Bonus_from_json_def)
      with None show ?thesis by blast
    next
      case p: (Some p)
      with a l have n: "map_of kvs ''answers'' = None" by simp
      with l p have "Bonus_from_json (JObj kvs) = Inl (KeyError ''answers'')"
        by (simp add: Bonus_from_json_def)
      with n show ?thesis by blast
    qed
  qed
qed

text \<open>A record without \<open>question\<close>.\<close>

theorem missing_required_field_witness:
  "map_of [(''answer'', JStr ''a''), (''category'', JStr ''Science'')] ''question'' = None
   \<and> (\<exists>k. (k = ''question'' \<or> k = ''answer'')
        \<and> map_of [(''answer'', JStr ''a''), (''category'', JStr ''Science'')] k = None
        \<and> Tossup_from_json (JObj [(''answer'', JStr ''a''), (''category'', JStr ''Science'')])
            = Inl (KeyError k))"
proof -
  let ?kvs = "[(''answer'', JStr ''a''), (''category'', JStr ''Science'')]"
  have h: "map_of ?kvs ''question'' = None" by simp
  then have h': "map_of ?kvs ''question'' = None \<or> map_of ?kvs ''answer'' = None" by (rule disjI1)
  have "\<exists>k. (k = ''question'' \<or> k = ''answer'') \<and> map_of ?kvs k = None
        \<and> Tossup_from_json (JObj ?kvs) = Inl (KeyError k)"
    using missing_required_field [of ?kvs, THEN conjunct1] h' by (rule mp)
  with h show ?thesis by (intro conjI)
qed

section \<open>The other subscripted keys\<close>












section \<open>Difficulty given as an integer or as a numeric string\<close>

text \<open>
  \<open>str\<close> prints the integers 0 to 10 as the values of the eleven members, and a
  constructor reads its input only through the lookups of its keys.
\<close>

lemma Difficulty_of_level:
  assumes "0 \<le> d" "d \<le> 10"
  shows "Difficulty_call (JStr (int_str d)) = Inr (Difficulty_members ! nat d)"
proof -
  from assms have "d = 0 \<or> d = 1 \<or> d = 2 \<or> d = 3 \<or> d = 4 \<or> d = 5 \<or> d = 6 \<or> d = 7
      \<or> d = 8 \<or> d = 9 \<or> d = 10"
    by presburger
  then show ?thesis
    by (elim disjE)
      (simp_all add: int_str_def nat_digits.simps digit_char_def
        Difficulty_call_def enum_call_def Difficulty_members_def)
qed

lemma py_str_JInt: "py_str (JInt d) = int_str d"
  by (simp add: py_str_def)

lemma py_str_JStr: "py_str (JStr s) = s"
  by (simp add: py_str_def)

lemma Tossup_from_json_difficulty_cong:
  assumes d1: "map_of kvs1 ''difficulty'' = Some v1"
    and d2: "map_of kvs2 ''difficulty'' = Some v2"
    and s: "py_str v1 = py_str v2"
    and rest: "\<forall>k. k \<noteq> ''difficulty'' \<longrightarrow> map_of kvs1 k = map_of kvs2 k"
  shows "Tossup_from_json (JObj kvs1) = Tossup_from_json (JObj kvs2)"
proof -
  have g: "py_getitem (JObj kvs1) k = py_getitem (JObj kvs2) k" if "k \<noteq> ''difficulty''" for k
    using rest that by simp
  have g': "py_get (JObj kvs1) k x = py_get (JObj kvs2) k x" if "k \<noteq> ''difficulty''" for k x
    using rest that by simp
  have eqs: "py_getitem (JObj kvs1) ''question'' = py_getitem (JObj kvs2) ''question''"
    "py_getitem (JObj kvs1) ''answer'' = py_getitem (JObj kvs2) ''answer''"
    "py_getitem (JObj kvs1) ''category'' = py_getitem (JObj kvs2) ''category''"
    "py_getitem (JObj kvs1) ''subcategory'' = py_getitem (JObj kvs2) ''subcategory''"
    "py_getitem (JObj kvs1) ''setName'' = py_getitem (JObj kvs2) ''setName''"
    "py_getitem (JObj kvs1) ''setYear'' = py_getitem (JObj kvs2) ''setYear''"
    "py_getitem (JObj kvs1) ''packetNumber'' = py_getitem (JObj kvs2) ''packetNumber''"
    "py_getitem (JObj kvs1) ''questionNumber'' = py_getitem (JObj kvs2) ''questionNumber''"
    "\<And>x. py_get (JObj kvs1) ''formatted_answer'' x = py_get (JObj kvs2) ''formatted_answer'' x"
    by (rule g g', simp)+
  have e1: "py_getitem (JObj kvs1) ''difficulty'' = Inr v1" using d1 by simp
  have e2: "py_getitem (JObj kvs2) ''difficulty'' = Inr v2" using d2 by simp
  show ?thesis
    unfolding Tossup_from_json_def eqs e1 e2 bindE_simps s ..
qed

lemma Bonus_from_json_difficulty_cong:
  assumes d1: "map_of kvs1 ''difficulty'' = Some v1"
    and d2: "map_of kvs2 ''difficulty'' = Some v2"
    and s: "py_str v1 = py_str v2"
    and rest: "\<forall>k. k \<noteq> ''difficulty'' \<longrightarrow> map_of kvs1 k = map_of kvs2 k"
  shows "Bonus_from_json (JObj kvs1) = Bonus_from_json (JObj kvs2)"
proof -
  have g: "py_getitem (JObj kvs1) k = py_getitem (JObj kvs2) k" if "k \<noteq> ''difficulty''" for k
    using rest that by simp
  have g': "py_get (JObj kvs1) k x = py_get (JObj kvs2) k x" if "k \<noteq> ''difficulty''" for k x
    using rest that by simp
  have eqs: "py_getitem (JObj kvs1) ''leadin'' = py_getitem (JObj kvs2) ''leadin''"
    "py_getitem (JObj kvs1) ''parts'' = py_getitem (JObj kvs2) ''parts''"
    "py_getitem (JObj kvs1) ''answers'' = py_getitem (JObj kvs2) ''answers''"
    "py_getitem (JObj kvs1) ''category'' = py_getitem (JObj kvs2) ''category''"
    "py_getitem (JObj kvs1) ''subcategory'' = py_getitem (JObj kvs2) ''subcategory''"
    "py_getitem (JObj kvs1) ''setName'' = py_getitem (JObj kvs2) ''setName''"
    "py_getitem (JObj kvs1) ''setYear'' = py_getitem (JObj kvs2) ''setYear''"
    "py_getitem (JObj kvs1) ''packetNumber'' = py_getitem (JObj kvs2) ''packetNumber''"
    "py_getitem (JObj kvs1) ''questionNumber'' = py_getitem (JObj kvs2) ''questionNumber''"
    "\<And>x. py_get (JObj kvs1) ''formatted_answers'' x = py_get (JObj kvs2) ''formatted_answers'' x"
    by (rule g g', simp)+
  have e1: "py_getitem (JObj kvs1) ''difficulty'' = Inr v1" using d1 by simp
  have e2: "py_getitem (JObj kvs2) ''difficulty'' = Inr v2" using d2 by simp
  show ?thesis
    unfolding Bonus_from_json_def eqs e1 e2 bindE_simps s ..
qed

lemma enum_examples:
  "Category_call (JStr ''Science'') = Inr SCIENCE"
  "Subcategory_call (JStr ''Biology'') = Inr BIOLOGY"
  "Difficulty_call (JStr ''3'') = Inr HS_REGS"
  "Difficulty_call (JStr ''7'') = Inr TWO_DOT"
  by (simp_all add: Category_call_def Subcategory_call_def Difficulty_call_def enum_call_def
      Category_members_def Subcategory_members_def Difficulty_members_def)

lemma int_str_examples: "int_str 3 = ''3''" "int_str 7 = ''7''"
  by (simp_all add: int_str_def nat_digits.simps digit_char_def)

text \<open>
  Claim C3. For a level \<open>d\<close> from 0 to 10, the integer \<open>d\<close> and the string \<open>str(d)\<close> are
  converted to the same member of \<open>Difficulty\<close>, the one at position \<open>d\<close>. Two records
  that differ only in carrying the one or the other under \<open>difficulty\<close> give the same
  result in \<open>Tossup.from_json\<close> and in \<open>Bonus.from_json\<close>, and an entity built from them
  has that member as its difficulty. When the other fields of the record are valid, both
  records are accepted: \<open>Tossup.from_json\<close> returns the tossup with that member as its
  difficulty for the one and for the other, and \<open>Bonus.from_json\<close> does so for a bonus
  record whose parts and answers are lists.
\<close>

theorem difficulty_int_or_string:
  "0 \<le> d \<and> d \<le> 10 \<longrightarrow>
     Difficulty_call (JStr (py_str (JInt d))) = Inr (Difficulty_members ! nat d)
   \<and> Difficulty_call (JStr (py_str (JStr (int_str d)))) = Inr (Difficulty_members ! nat d)
   \<and> (map_of kvs1 ''difficulty'' = Some (JInt d)
       \<and> map_of kvs2 ''difficulty'' = Some (JStr (int_str d))
       \<and> (\<forall>k. k \<noteq> ''difficulty'' \<longrightarrow> map_of kvs1 k = map_of kvs2 k) \<longrightarrow>
         Tossup_from_json (JObj kvs1) = Tossup_from_json (JObj kvs2)
       \<and> Bonus_from_json (JObj kvs1) = Bonus_from_json (JObj kvs2)
       \<and> (\<forall>t. Tossup_from_json (JObj kvs1) = Inr t \<longrightarrow>
             difficulty_t t = Difficulty_members ! nat d)
       \<and> (\<forall>b. Bonus_from_json (JObj kvs1) = Inr b \<longrightarrow>
             difficulty_b b = Difficulty_members ! nat d)
       \<and> (map_of kvs1 ''question'' = Some q \<and> map_of kvs1 ''answer'' = Some a
           \<and> map_of kvs1 ''category'' = Some c0 \<and> Category_call c0 = Inr c
           \<and> map_of kvs1 ''subcategory'' = Some sc0 \<and> Subcategory_call sc0 = Inr sc
           \<and> map_of kvs1 ''setName'' = Some s \<and> map_of kvs1 ''setYear'' = Some y
           \<and> map_of kvs1 ''packetNumber'' = Some pn \<and> map_of kvs1 ''questionNumber'' = Some qn
          \<longrightarrow>
             Tossup_from_json (JObj kvs1) =
               Inr (Tossup_init q (case map_of kvs1 ''formatted_answer'' of None \<Rightarrow> a | Some v \<Rightarrow> v)
                      a c sc s y pn qn (Difficulty_members ! nat d))
           \<and> Tossup_from_json (JObj kvs2) =
               Inr (Tossup_init q (case map_of kvs1 ''formatted_answer'' of None \<Rightarrow> a | Some v \<Rightarrow> v)
                      a c sc s y pn qn (Difficulty_members ! nat d)))
       \<and> (map_of kvs1 ''leadin'' = Some l \<and> map_of kvs1 ''parts'' = Some (JArr ps)
           \<and> map_of kvs1 ''answers'' = Some (JArr as)
           \<and> map_of kvs1 ''formatted_answers'' = None
           \<and> map_of kvs1 ''category'' = Some c0 \<and> Category_call c0 = Inr c
           \<and> map_of kvs1 ''subcategory'' = Some sc0 \<and> Subcategory_call sc0 = Inr sc
           \<and> map_of kvs1 ''setName'' = Some s \<and> map_of kvs1 ''setYear'' = Some y
           \<and> map_of kvs1 ''packetNumber'' = Some pn \<and> map_of kvs1 ''questionNumber'' = Some qn
          \<longrightarrow>
             Bonus_from_json (JObj kvs1) =
               Inr \<lparr> leadin = l, parts = ps, formatted_answers = as, answers = as,
                     category_b = c, subcategory_b = sc, set_b = s, year_b = y,
                     packet_number_b = pn, question_number_b = qn,
                     difficulty_b = Difficulty_members ! nat d \<rparr>
           \<and> Bonus_from_json (JObj kvs2) =
               Inr \<lparr> leadin = l, parts = ps, formatted_answers = as, answers = as,
                     category_b = c, subcategory_b = sc, set_b = s, year_b = y,
                     packet_number_b = pn, question_number_b = qn,
                     difficulty_b = Difficulty_members ! nat d \<rparr>))"
proof (intro impI conjI allI)
  assume r: "0 \<le> d \<and> d \<le> 10"
  then have lvl: "Difficulty_call (JStr (int_str d)) = Inr (Difficulty_members ! nat d)"
    by (intro Difficulty_of_level) simp_all
  show "Difficulty_call (JStr (py_str (JInt d))) = Inr (Difficulty_members ! nat d)"
    unfolding py_str_JInt by (rule lvl)
  show "Difficulty_call (JStr (py_str (JStr (int_str d)))) = Inr (Difficulty_members ! nat d)"
    unfolding py_str_JStr by (rule lvl)
  assume h: "map_of kvs1 ''difficulty'' = Some (JInt d)
       \<and> map_of kvs2 ''difficulty'' = Some (JStr (int_str d))
       \<and> (\<forall>k. k \<noteq> ''difficulty'' \<longrightarrow> map_of kvs1 k = map_of kvs2 k)"
  have s: "py_str (JInt d) = py_str (JStr (int_str d))"
    unfolding py_str_JInt py_str_JStr ..
  show "Tossup_from_json (JObj kvs1) = Tossup_from_json (JObj kvs2)"
    by (rule Tossup_from_json_difficulty_cong
        [OF h [THEN conjunct1] h [THEN conjunct2, THEN conjunct1] s h [THEN conjunct2, THEN conjunct2]])
  show "Bonus_from_json (JObj kvs1) = Bonus_from_json (JObj kvs2)"
    by (rule Bonus_from_json_difficulty_cong
        [OF h [THEN conjunct1] h [THEN conjunct2, THEN conjunct1] s h [THEN conjunct2, THEN conjunct2]])
  {
    fix t assume "Tossup_from_json (JObj kvs1) = Inr t"
    then obtain q fa a c sc st y pn qn d0 d' where
      d0: "map_of kvs1 ''difficulty'' = Some d0" and
      d': "Difficulty_call (JStr (py_str d0)) = Inr d'" and
      t: "t = Tossup_init q fa a c sc st y pn qn d'"
      unfolding Tossup_from_json_Inr_iff by blast
    from d0 h have "d0 = JInt d" by simp
    with d' lvl have "d' = Difficulty_members ! nat d" by (simp add: py_str_JInt)
    with t show "difficulty_t t = Difficulty_members ! nat d" by (simp add: Tossup_init_def)
  }
  {
    fix b assume "Bonus_from_json (JObj kvs1) = Inr b"
    then obtain l ps fas as c sc st y pn qn d0 d' where
      d0: "map_of kvs1 ''difficulty'' = Some d0" and
      d': "Difficulty_call (JStr (py_str d0)) = Inr d'" and
      b: "Bonus_init l ps fas as c sc st y pn qn d' = Inr b"
      unfolding Bonus_from_json_Inr_iff by blast
    from d0 h have "d0 = JInt d" by simp
    with d' lvl have "d' = Difficulty_members ! nat d" by (simp add: py_str_JInt)
    with b show "difficulty_b b = Difficulty_members ! nat d"
      unfolding Bonus_init_Inr_iff by auto
  }
  have dl: "Difficulty_call (JStr (py_str (JInt d))) = Inr (Difficulty_members ! nat d)"
    unfolding py_str_JInt by (rule lvl)
  have te: "Tossup_from_json (JObj kvs1) = Tossup_from_json (JObj kvs2)"
    by (rule Tossup_from_json_difficulty_cong
        [OF h [THEN conjunct1] h [THEN conjunct2, THEN conjunct1] s h [THEN conjunct2, THEN conjunct2]])
  have be: "Bonus_from_json (JObj kvs1) = Bonus_from_json (JObj kvs2)"
    by (rule Bonus_from_json_difficulty_cong
        [OF h [THEN conjunct1] h [THEN conjunct2, THEN conjunct1] s h [THEN conjunct2, THEN conjunct2]])
  {
    assume v: "map_of kvs1 ''question'' = Some q \<and> map_of kvs1 ''answer'' = Some a
           \<and> map_of kvs1 ''category'' = Some c0 \<and> Category_call c0 = Inr c
           \<and> map_of kvs1 ''subcategory'' = Some sc0 \<and> Subcategory_call sc0 = Inr sc
           \<and> map_of kvs1 ''setName'' = Some s \<and> map_of kvs1 ''setYear'' = Some y
           \<and> map_of kvs1 ''packetNumber'' = Some pn \<and> map_of kvs1 ''questionNumber'' = Some qn"
    have t1: "Tossup_from_json (JObj kvs1) =
               Inr (Tossup_init q (case map_of kvs1 ''formatted_answer'' of None \<Rightarrow> a | Some v \<Rightarrow> v)
                      a c sc s y pn qn (Difficulty_members ! nat d))"
      unfolding Tossup_from_json_Inr_iff using v h dl by simp
    show "Tossup_from_json (JObj kvs1) =
               Inr (Tossup_init q (case map_of kvs1 ''formatted_answer'' of None \<Rightarrow> a | Some v \<Rightarrow> v)
                      a c sc s y pn qn (Difficulty_members ! nat d))"
      by (rule t1)
    show "Tossup_from_json (JObj kvs2) =
               Inr (Tossup_init q (case map_of kvs1 ''formatted_answer'' of None \<Rightarrow> a | Some v \<Rightarrow> v)
                      a c sc s y pn qn (Difficulty_members ! nat d))"
      using t1 unfolding te .
  }
  {
    assume v: "map_of kvs1 ''leadin'' = Some l \<and> map_of kvs1 ''parts'' = Some (JArr ps)
           \<and> map_of kvs1 ''answers'' = Some (JArr as)
           \<and> map_of kvs1 ''formatted_answers'' = None
           \<and> map_of kvs1 ''category'' = Some c0 \<and> Category_call c0 = Inr c
           \<and> map_of kvs1 ''subcategory'' = Some sc0 \<and> Subcategory_call sc0 = Inr sc
           \<and> map_of kvs1 ''setName'' = Some s \<and> map_of kvs1 ''setYear'' = Some y
           \<and> map_of kvs1 ''packetNumber'' = Some pn \<and> map_of kvs1 ''questionNumber'' = Some qn"
    have b1: "Bonus_from_json (JObj kvs1) =
               Inr \<lparr> leadin = l, parts = ps, formatted_answers = as, answers = as,
                     category_b = c, subcategory_b = sc, set_b = s, year_b = y,
                     packet_number_b = pn, question_number_b = qn,
                     difficulty_b = Difficulty_members ! nat d \<rparr>"
      unfolding Bonus_from_json_Inr_iff Bonus_init_Inr_iff using v h dl by simp
    show "Bonus_from_json (JObj kvs1) =
               Inr \<lparr> leadin = l, parts = ps, formatted_answers = as, answers = as,
                     category_b = c, subcategory_b = sc, set_b = s, year_b = y,
                     packet_number_b = pn, question_number_b = qn,
                     difficulty_b = Difficulty_members ! nat d \<rparr>"
      by (rule b1)
    show "Bonus_from_json (JObj kvs2) =
               Inr \<lparr> leadin = l, parts = ps, formatted_answers = as, answers = as,
                     category_b = c, subcategory_b = sc, set_b = s, year_b = y,
                     packet_number_b = pn, question_number_b = qn,
                     difficulty_b = Difficulty_members ! nat d \<rparr>"
      using b1 unfolding be .
  }
qed

text \<open>
  The level 7: a tossup record carrying the integer 7 and the same record carrying the
  string \<open>"7"\<close> are both accepted, with the difficulty \<open>TWO_DOT\<close>.
\<close>

theorem difficulty_int_or_string_witness:
  "(0::int) \<le> 7 \<and> (7::int) \<le> 10
   \<and> Tossup_from_json (JObj
        [(''question'', JStr ''q''), (''answer'', JStr ''a''), (''category'', JStr ''Science''),
         (''subcategory'', JStr ''Biology''), (''setName'', JStr ''s''), (''setYear'', JInt 2020),
         (''packetNumber'', JInt 1), (''questionNumber'', JInt 2), (''difficulty'', JInt 7)])
     = Inr (Tossup_init (JStr ''q'') (JStr ''a'') (JStr ''a'') SCIENCE BIOLOGY (JStr ''s'')
              (JInt 2020) (JInt 1) (JInt 2) TWO_DOT)
   \<and> Tossup_from_json (JObj
        [(''question'', JStr ''q''), (''answer'', JStr ''a''), (''category'', JStr ''Science''),
         (''subcategory'', JStr ''Biology''), (''setName'', JStr ''s''), (''setYear'', JInt 2020),
         (''packetNumber'', JInt 1), (''questionNumber'', JInt 2), (''difficulty'', JStr ''7'')])
     = Inr (Tossup_init (JStr ''q'') (JStr ''a'') (JStr ''a'') SCIENCE BIOLOGY (JStr ''s'')
              (JInt 2020) (JInt 1) (JInt 2) TWO_DOT)
   \<and> difficulty_t (Tossup_init (JStr ''q'') (JStr ''a'') (JStr ''a'') SCIENCE BIOLOGY (JStr ''s'')
              (JInt 2020) (JInt 1) (JInt 2) TWO_DOT) = TWO_DOT"
proof -
  let ?k1 = "[(''question'', JStr ''q''), (''answer'', JStr ''a''), (''category'', JStr ''Science''),
         (''subcategory'', JStr ''Biology''), (''setName'', JStr ''s''), (''setYear'', JInt 2020),
         (''packetNumber'', JInt 1), (''questionNumber'', JInt 2), (''difficulty'', JInt 7)]"
  let ?k2 = "[(''question'', JStr ''q''), (''answer'', JStr ''a''), (''category'', JStr ''Science''),
         (''subcategory'', JStr ''Biology''), (''setName'', JStr ''s''), (''setYear'', JInt 2020),
         (''packetNumber'', JInt 1), (''questionNumber'', JInt 2),
         (''difficulty'', JStr (int_str 7))]"
  have r: "(0::int) \<le> 7 \<and> (7::int) \<le> 10" by simp
  have h: "map_of ?k1 ''difficulty'' = Some (JInt 7)
       \<and> map_of ?k2 ''difficulty'' = Some (JStr (int_str 7))
       \<and> (\<forall>k. k \<noteq> ''difficulty'' \<longrightarrow> map_of ?k1 k = map_of ?k2 k)"
    by simp
  have v: "map_of ?k1 ''question'' = Some (JStr ''q'') \<and> map_of ?k1 ''answer'' = Some (JStr ''a'')
           \<and> map_of ?k1 ''category'' = Some (JStr ''Science'')
           \<and> Category_call (JStr ''Science'') = Inr SCIENCE
           \<and> map_of ?k1 ''subcategory'' = Some (JStr ''Biology'')
           \<and> Subcategory_call (JStr ''Biology'') = Inr BIOLOGY
           \<and> map_of ?k1 ''setName'' = Some (JStr ''s'') \<and> map_of ?k1 ''setYear'' = Some (JInt 2020)
           \<and> map_of ?k1 ''packetNumber'' = Some (JInt 1)
           \<and> map_of ?k1 ''questionNumber'' = Some (JInt 2)"
    by (simp add: enum_examples)
  have n: "(case map_of ?k1 ''formatted_answer'' of None \<Rightarrow> JStr ''a'' | Some v \<Rightarrow> v) = JStr ''a''"
    by simp
  have m: "Difficulty_members ! nat 7 = TWO_DOT" by (simp add: Difficulty_members_def)
  have i: "int_str 7 = ''7''" by (rule int_str_examples)
  note t = difficulty_int_or_string
    [of 7 ?k1 ?k2 "JStr ''q''" "JStr ''a''" "JStr ''Science''" SCIENCE "JStr ''Biology''" BIOLOGY
      "JStr ''s''" "JInt 2020" "JInt 1" "JInt 2",
      THEN mp, OF r, THEN conjunct2, THEN conjunct2, THEN mp, OF h,
      THEN conjunct2, THEN conjunct2, THEN conjunct2, THEN conjunct2, THEN conjunct1,
      THEN mp, OF v]
  have a: "Tossup_from_json (JObj ?k1)
     = Inr (Tossup_init (JStr ''q'') (JStr ''a'') (JStr ''a'') SCIENCE BIOLOGY (JStr ''s'')
              (JInt 2020) (JInt 1) (JInt 2) TWO_DOT)"
    using t [THEN conjunct1] by (simp only: n m)
  have b: "Tossup_from_json (JObj ?k2)
     = Inr (Tossup_init (JStr ''q'') (JStr ''a'') (JStr ''a'') SCIENCE BIOLOGY (JStr ''s'')
              (JInt 2020) (JInt 1) (JInt 2) TWO_DOT)"
    using t [THEN conjunct2] by (simp only: n m)
  have b': "Tossup_from_json (JObj
        [(''question'', JStr ''q''), (''answer'', JStr ''a''), (''category'', JStr ''Science''),
         (''subcategory'', JStr ''Biology''), (''setName'', JStr ''s''), (''setYear'', JInt 2020),
         (''packetNumber'', JInt 1), (''questionNumber'', JInt 2), (''difficulty'', JStr ''7'')])
     = Inr (Tossup_init (JStr ''q'') (JStr ''a'') (JStr ''a'') SCIENCE BIOLOGY (JStr ''s'')
              (JInt 2020) (JInt 1) (JInt 2) TWO_DOT)"
    using b by (simp only: i)
  have d: "difficulty_t (Tossup_init (JStr ''q'') (JStr ''a'') (JStr ''a'') SCIENCE BIOLOGY
              (JStr ''s'') (JInt 2020) (JInt 1) (JInt 2) TWO_DOT) = TWO_DOT"
    by (simp add: Tossup_init_def)
  from r a b' d show ?thesis by (intro conjI) simp_all
qed

section \<open>Fallback of the formatted answer\<close>




section \<open>The three sequences of a bonus\<close>

text \<open>
  Claim C5, as the code has it. In an accepted bonus record, \<open>parts\<close> and \<open>answers\<close> of
  the entity are the items of the input's \<open>parts\<close> and \<open>answers\<close> in the input's order,
  and \<open>formatted_answers\<close> is the input's non-empty \<open>formatted_answers\<close> list or else
  \<open>answers\<close>: nothing is sorted or dropped. So \<open>formatted_answers\<close> is as long as
  \<open>answers\<close> when it falls back, and the three lengths agree, with \<open>parts[i]\<close> beside
  \<open>answers[i]\<close>, whenever the input lists have the same length. The constructor does not
  compare the lengths.
\<close>

theorem bonus_sequences:
  "Bonus_from_json (JObj kvs) = Inr b \<longrightarrow>
     (\<exists>pv av. map_of kvs ''parts'' = Some pv \<and> py_iter pv = Inr (parts b)
            \<and> map_of kvs ''answers'' = Some av \<and> py_iter av = Inr (answers b))
   \<and> (\<forall>ps. map_of kvs ''parts'' = Some (JArr ps) \<longrightarrow> parts b = ps)
   \<and> (\<forall>as. map_of kvs ''answers'' = Some (JArr as) \<longrightarrow> answers b = as)
   \<and> (\<forall>fs. map_of kvs ''formatted_answers'' = Some (JArr fs) \<and> fs \<noteq> [] \<longrightarrow>
         formatted_answers b = fs)
   \<and> (map_of kvs ''formatted_answers'' = None
       \<or> (\<exists>v. map_of kvs ''formatted_answers'' = Some v \<and> \<not> py_truthy v) \<longrightarrow>
         formatted_answers b = answers b \<and> length (formatted_answers b) = length (answers b))
   \<and> (\<forall>ps as. map_of kvs ''parts'' = Some (JArr ps) \<and> map_of kvs ''answers'' = Some (JArr as)
         \<and> length ps = length as
         \<and> (map_of kvs ''formatted_answers'' = None
            \<or> (\<exists>fs. map_of kvs ''formatted_answers'' = Some (JArr fs)
                  \<and> (fs = [] \<or> length fs = length as))) \<longrightarrow>
         length (parts b) = length (answers b)
       \<and> length (answers b) = length (formatted_answers b)
       \<and> (\<forall>i < length ps. parts b ! i = ps ! i \<and> answers b ! i = as ! i))"
proof
  assume "Bonus_from_json (JObj kvs) = Inr b"
  then obtain l ps as c sc st y pn qn d where
    p: "map_of kvs ''parts'' = Some ps" and
    a: "map_of kvs ''answers'' = Some as" and
    b: "Bonus_init l ps (case map_of kvs ''formatted_answers'' of None \<Rightarrow> as | Some v \<Rightarrow> v)
              as c sc st y pn qn d = Inr b"
    unfolding Bonus_from_json_Inr_iff by blast
  let ?fas = "case map_of kvs ''formatted_answers'' of None \<Rightarrow> as | Some v \<Rightarrow> v"
  from b have ps': "py_iter ps = Inr (parts b)"
    and as': "py_iter as = Inr (answers b)"
    and fas': "py_iter (if py_truthy ?fas then ?fas else as) = Inr (formatted_answers b)"
    unfolding Bonus_init_Inr_iff by auto
  show "(\<exists>pv av. map_of kvs ''parts'' = Some pv \<and> py_iter pv = Inr (parts b)
            \<and> map_of kvs ''answers'' = Some av \<and> py_iter av = Inr (answers b))
   \<and> (\<forall>ps. map_of kvs ''parts'' = Some (JArr ps) \<longrightarrow> parts b = ps)
   \<and> (\<forall>as. map_of kvs ''answers'' = Some (JArr as) \<longrightarrow> answers b = as)
   \<and> (\<forall>fs. map_of kvs ''formatted_answers'' = Some (JArr fs) \<and> fs \<noteq> [] \<longrightarrow>
         formatted_answers b = fs)
   \<and> (map_of kvs ''formatted_answers'' = None
       \<or> (\<exists>v. map_of kvs ''formatted_answers'' = Some v \<and> \<not> py_truthy v) \<longrightarrow>
         formatted_answers b = answers b \<and> length (formatted_answers b) = length (answers b))
   \<and> (\<forall>ps as. map_of kvs ''parts'' = Some (JArr ps) \<and> map_of kvs ''answers'' = Some (JArr as)
         \<and> length ps = length as
         \<and> (map_of kvs ''formatted_answers'' = None
            \<or> (\<exists>fs. map_of kvs ''formatted_answers'' = Some (JArr fs)
                  \<and> (fs = [] \<or> length fs = length as))) \<longrightarrow>
         length (parts b) = length (answers b)
       \<and> length (answers b) = length (formatted_answers b)
       \<and> (\<forall>i < length ps. parts b ! i = ps ! i \<and> answers b ! i = as ! i))"
    using p a ps' as' fas' by (auto split: option.splits if_splits)
qed

text \<open>
  Claim C5 as stated fails: a record with one part and two answers is accepted, and the
  entity has one part and two answers.
\<close>

theorem bonus_sequences_counterexample:
  "(case Bonus_from_json (JObj
        [(''leadin'', JStr ''l''), (''parts'', JArr [JStr ''p1'']),
         (''answers'', JArr [JStr ''a1'', JStr ''a2'']), (''category'', JStr ''Science''),
         (''subcategory'', JStr ''Biology''), (''setName'', JStr ''s''), (''setYear'', JInt 2020),
         (''packetNumber'', JInt 1), (''questionNumber'', JInt 2), (''difficulty'', JInt 3)])
    of Inl e \<Rightarrow> False
     | Inr b \<Rightarrow> parts b = [JStr ''p1''] \<and> answers b = [JStr ''a1'', JStr ''a2'']
              \<and> length (parts b) \<noteq> length (answers b))"
  by (simp add: Bonus_from_json_def Bonus_init_def enum_examples py_str_JInt int_str_examples)

text \<open>The record with three parts, three answers and no \<open>formatted_answers\<close>.\<close>

theorem bonus_sequences_witness:
  "Bonus_from_json (JObj
        [(''leadin'', JStr ''l''), (''parts'', JArr [JStr ''p1'', JStr ''p2'', JStr ''p3'']),
         (''answers'', JArr [JStr ''a1'', JStr ''a2'', JStr ''a3'']), (''category'', JStr ''Science''),
         (''subcategory'', JStr ''Biology''), (''setName'', JStr ''s''), (''setYear'', JInt 2020),
         (''packetNumber'', JInt 1), (''questionNumber'', JInt 2), (''difficulty'', JInt 3)])
     = Inr \<lparr> leadin = JStr ''l'', parts = [JStr ''p1'', JStr ''p2'', JStr ''p3''],
             formatted_answers = [JStr ''a1'', JStr ''a2'', JStr ''a3''],
             answers = [JStr ''a1'', JStr ''a2'', JStr ''a3''],
             category_b = SCIENCE, subcategory_b = BIOLOGY, set_b = JStr ''s'',
             year_b = JInt 2020, packet_number_b = JInt 1, question_number_b = JInt 2,
             difficulty_b = HS_REGS \<rparr>
   \<and> length (parts \<lparr> leadin = JStr ''l'', parts = [JStr ''p1'', JStr ''p2'', JStr ''p3''],
             formatted_answers = [JStr ''a1'', JStr ''a2'', JStr ''a3''],
             answers = [JStr ''a1'', JStr ''a2'', JStr ''a3''],
             category_b = SCIENCE, subcategory_b = BIOLOGY, set_b = JStr ''s'',
             year_b = JInt 2020, packet_number_b = JInt 1, question_number_b = JInt 2,
             difficulty_b = HS_REGS \<rparr>)
     = length (answers \<lparr> leadin = JStr ''l'', parts = [JStr ''p1'', JStr ''p2'', JStr ''p3''],
             formatted_answers = [JStr ''a1'', JStr ''a2'', JStr ''a3''],
             answers = [JStr ''a1'', JStr ''a2'', JStr ''a3''],
             category_b = SCIENCE, subcategory_b = BIOLOGY, set_b = JStr ''s'',
             year_b = JInt 2020, packet_number_b = JInt 1, question_number_b = JInt 2,
             difficulty_b = HS_REGS \<rparr>)"
proof -
  let ?ps = "[JStr ''p1'', JStr ''p2'', JStr ''p3'']"
  let ?as = "[JStr ''a1'', JStr ''a2'', JStr ''a3'']"
  let ?k = "[(''leadin'', JStr ''l''), (''parts'', JArr ?ps),
         (''answers'', JArr ?as), (''category'', JStr ''Science''),
         (''subcategory'', JStr ''Biology''), (''setName'', JStr ''s''), (''setYear'', JInt 2020),
         (''packetNumber'', JInt 1), (''questionNumber'', JInt 2), (''difficulty'', JInt 3)]"
  let ?b = "\<lparr> leadin = JStr ''l'', parts = ?ps, formatted_answers = ?as, answers = ?as,
             category_b = SCIENCE, subcategory_b = BIOLOGY, set_b = JStr ''s'',
             year_b = JInt 2020, packet_number_b = JInt 1, question_number_b = JInt 2,
             difficulty_b = HS_REGS \<rparr>"
  have r: "Bonus_from_json (JObj ?k) = Inr ?b"
    by (simp add: Bonus_from_json_def Bonus_init_def enum_examples py_str_JInt int_str_examples)
  have h: "map_of ?k ''parts'' = Some (JArr ?ps) \<and> map_of ?k ''answers'' = Some (JArr ?as)
         \<and> length ?ps = length ?as
         \<and> (map_of ?k ''formatted_answers'' = None
            \<or> (\<exists>fs. map_of ?k ''formatted_answers'' = Some (JArr fs)
                  \<and> (fs = [] \<or> length fs = length ?as)))"
    by simp
  note t = bonus_sequences [of ?k ?b, THEN mp, OF r]
  have "length (parts ?b) = length (answers ?b)"
    by (rule t [THEN conjunct2, THEN conjunct2, THEN conjunct2, THEN conjunct2, THEN conjunct2,
          THEN spec, THEN spec, THEN mp, OF h, THEN conjunct1])
  with r show ?thesis by (intro conjI)
qed

section \<open>The query response\<close>

text \<open>
  A list comprehension succeeds exactly when every call succeeds, with the results in
  order; it fails with the exception of the first call that fails.
\<close>

lemma map_res_Inr_iff: "map_res f xs = Inr ys \<longleftrightarrow> map f xs = map Inr ys"
proof (induction xs arbitrary: ys)
  case Nil
  then show ?case by auto
next
  case (Cons x xs)
  show ?case
  proof (cases "f x")
    case (Inl e)
    then show ?thesis by (cases ys) auto
  next
    case (Inr y)
    show ?thesis
    proof (cases "map_res f xs")
      case (Inl e)
      with Cons.IH have "map f xs \<noteq> map Inr zs" for zs by auto
      with Inr Inl show ?thesis by (cases ys) auto
    next
      case r: (Inr zs)
      with Cons.IH [of zs] have "map f xs = map Inr zs" by simp
      with Inr r show ?thesis by (cases ys) (auto simp: inj_map_eq_map)
    qed
  qed
qed

lemma map_res_first_failure:
  assumes "\<forall>y\<in>set pre. \<exists>z. f y = Inr z" and "f x = Inl e"
  shows "map_res f (pre @ x # post) = Inl e"
  using assms by (induction pre) (auto split: sum.splits)

lemma map_res_all_ok:
  assumes "\<forall>y\<in>set xs. \<exists>z. f y = Inr z"
  shows "\<exists>ys. map_res f xs = Inr ys"
  using assms by (induction xs) (auto split: sum.splits)

lemma first_failure_split:
  assumes "\<exists>x\<in>set xs. \<exists>e. f x = Inl e"
  shows "\<exists>pre x post e. xs = pre @ x # post \<and> (\<forall>y\<in>set pre. \<exists>z. f y = Inr z) \<and> f x = Inl e"
proof -
  from assms have "\<exists>x\<in>set xs. isl (f x)" by (auto simp: isl_def)
  then obtain pre x post where xs: "xs = pre @ x # post" and x: "isl (f x)"
    and pre: "\<forall>y\<in>set pre. \<not> isl (f y)"
    using split_list_first_prop [of xs "\<lambda>x. isl (f x)"] by blast
  from x obtain e where "f x = Inl e" by (auto simp: isl_def)
  moreover from pre have "\<forall>y\<in>set pre. \<exists>z. f y = Inr z"
    by (metis isl_def sum.exhaust)
  ultimately show ?thesis using xs by blast
qed

lemma QueryResponse_from_json_Inr_iff:
  "QueryResponse_from_json j = Inr r \<longleftrightarrow>
     (\<exists>tj tarr tjs ts bj barr bjs bs tc bc qs.
        py_getitem j ''tossups'' = Inr tj \<and> py_getitem tj ''questionArray'' = Inr tarr \<and>
        py_iter tarr = Inr tjs \<and> map_res Tossup_from_json tjs = Inr ts \<and>
        py_getitem j ''bonuses'' = Inr bj \<and> py_getitem bj ''questionArray'' = Inr barr \<and>
        py_iter barr = Inr bjs \<and> map_res Bonus_from_json bjs = Inr bs \<and>
        py_getitem tj ''count'' = Inr tc \<and> py_getitem bj ''count'' = Inr bc \<and>
        py_getitem j ''queryString'' = Inr qs \<and>
        r = \<lparr> tossups = ts, bonuses = bs, tossups_found = tc, bonuses_found = bc,
              query_string = qs \<rparr>)"
  unfolding QueryResponse_from_json_def bindE_Inr_iff
  by auto

lemma tossup_example:
  "Tossup_from_json (JObj
      [(''question'', JStr ''q1''), (''answer'', JStr ''a''), (''category'', JStr ''Science''),
       (''subcategory'', JStr ''Biology''), (''setName'', JStr ''s''), (''setYear'', JInt 2020),
       (''packetNumber'', JInt 1), (''questionNumber'', JInt 2), (''difficulty'', JInt 3)])
   = Inr (Tossup_init (JStr ''q1'') (JStr ''a'') (JStr ''a'') SCIENCE BIOLOGY (JStr ''s'')
            (JInt 2020) (JInt 1) (JInt 2) HS_REGS)"
  by (simp add: Tossup_from_json_def enum_examples py_str_JInt int_str_examples)

text \<open>
  Claim C7. When \<open>QueryResponse.from_json\<close> succeeds, the input has \<open>tossups\<close> and
  \<open>bonuses\<close>, each with a \<open>questionArray\<close> that can be iterated; \<open>tossups\<close> of the result
  holds the result of \<open>Tossup.from_json\<close> on each item, in order and as many as the
  items, and \<open>bonuses\<close> likewise with \<open>Bonus.from_json\<close>; \<open>tossups_found\<close>,
  \<open>bonuses_found\<close> and \<open>query_string\<close> are the two \<open>count\<close> values and \<open>queryString\<close> of
  the input, unchanged.
\<close>

theorem query_response_from_json:
  "QueryResponse_from_json j = Inr r \<longrightarrow>
     (\<exists>tj tarr tjs bj barr bjs.
        py_getitem j ''tossups'' = Inr tj \<and> py_getitem tj ''questionArray'' = Inr tarr
      \<and> py_iter tarr = Inr tjs
      \<and> map Tossup_from_json tjs = map Inr (tossups r) \<and> length (tossups r) = length tjs
      \<and> py_getitem j ''bonuses'' = Inr bj \<and> py_getitem bj ''questionArray'' = Inr barr
      \<and> py_iter barr = Inr bjs
      \<and> map Bonus_from_json bjs = map Inr (bonuses r) \<and> length (bonuses r) = length bjs
      \<and> py_getitem tj ''count'' = Inr (tossups_found r)
      \<and> py_getitem bj ''count'' = Inr (bonuses_found r)
      \<and> py_getitem j ''queryString'' = Inr (query_string r))"
proof
  assume "QueryResponse_from_json j = Inr r"
  then obtain tj tarr tjs ts bj barr bjs bs tc bc qs where
    f: "py_getitem j ''tossups'' = Inr tj" "py_getitem tj ''questionArray'' = Inr tarr"
       "py_iter tarr = Inr tjs"
       "py_getitem j ''bonuses'' = Inr bj" "py_getitem bj ''questionArray'' = Inr barr"
       "py_iter barr = Inr bjs"
       "py_getitem tj ''count'' = Inr tc" "py_getitem bj ''count'' = Inr bc"
       "py_getitem j ''queryString'' = Inr qs" and
    ts: "map_res Tossup_from_json tjs = Inr ts" and
    bs: "map_res Bonus_from_json bjs = Inr bs" and
    r: "r = \<lparr> tossups = ts, bonuses = bs, tossups_found = tc, bonuses_found = bc,
              query_string = qs \<rparr>"
    unfolding QueryResponse_from_json_Inr_iff by blast
  from ts have mt: "map Tossup_from_json tjs = map Inr ts" by (simp add: map_res_Inr_iff)
  from bs have mb: "map Bonus_from_json bjs = map Inr bs" by (simp add: map_res_Inr_iff)
  from mt have lt: "length ts = length tjs" by (metis length_map)
  from mb have lb: "length bs = length bjs" by (metis length_map)
  show "\<exists>tj tarr tjs bj barr bjs.
        py_getitem j ''tossups'' = Inr tj \<and> py_getitem tj ''questionArray'' = Inr tarr
      \<and> py_iter tarr = Inr tjs
      \<and> map Tossup_from_json tjs = map Inr (tossups r) \<and> length (tossups r) = length tjs
      \<and> py_getitem j ''bonuses'' = Inr bj \<and> py_getitem bj ''questionArray'' = Inr barr
      \<and> py_iter barr = Inr bjs
      \<and> map Bonus_from_json bjs = map Inr (bonuses r) \<and> length (bonuses r) = length bjs
      \<and> py_getitem tj ''count'' = Inr (tossups_found r)
      \<and> py_getitem bj ''count'' = Inr (bonuses_found r)
      \<and> py_getitem j ''queryString'' = Inr (query_string r)"
    apply (rule exI [of _ tj], rule exI [of _ tarr], rule exI [of _ tjs])
    apply (rule exI [of _ bj], rule exI [of _ barr], rule exI [of _ bjs])
    using f mt mb lt lb by (simp add: r)
qed

text \<open>A response with two tossups and a count of 57: the count exceeds the length of the list.\<close>

theorem query_response_from_json_witness:
  "\<exists>r. QueryResponse_from_json (JObj
      [(''tossups'', JObj
          [(''questionArray'', JArr
              [JObj [(''question'', JStr ''q1''), (''answer'', JStr ''a''),
                 (''category'', JStr ''Science''), (''subcategory'', JStr ''Biology''),
                 (''setName'', JStr ''s''), (''setYear'', JInt 2020),
                 (''packetNumber'', JInt 1), (''questionNumber'', JInt 2),
                 (''difficulty'', JInt 3)],
               JObj [(''question'', JStr ''q1''), (''answer'', JStr ''a''),
                 (''category'', JStr ''Science''), (''subcategory'', JStr ''Biology''),
                 (''setName'', JStr ''s''), (''setYear'', JInt 2020),
                 (''packetNumber'', JInt 1), (''questionNumber'', JInt 2),
                 (''difficulty'', JInt 3)]]),
           (''count'', JInt 57)]),
       (''bonuses'', JObj [(''questionArray'', JArr []), (''count'', JInt 0)]),
       (''queryString'', JStr ''x'')]) = Inr r
     \<and> length (tossups r) = 2 \<and> tossups_found r = JInt 57 \<and> query_string r = JStr ''x''
     \<and> (\<exists>tjs. length (tossups r) = length tjs \<and> map Tossup_from_json tjs = map Inr (tossups r))"
proof -
  let ?tj = "JObj [(''question'', JStr ''q1''), (''answer'', JStr ''a''),
                 (''category'', JStr ''Science''), (''subcategory'', JStr ''Biology''),
                 (''setName'', JStr ''s''), (''setYear'', JInt 2020),
                 (''packetNumber'', JInt 1), (''questionNumber'', JInt 2),
                 (''difficulty'', JInt 3)]"
  let ?t = "Tossup_init (JStr ''q1'') (JStr ''a'') (JStr ''a'') SCIENCE BIOLOGY (JStr ''s'')
            (JInt 2020) (JInt 1) (JInt 2) HS_REGS"
  let ?j = "JObj
      [(''tossups'', JObj [(''questionArray'', JArr [?tj, ?tj]), (''count'', JInt 57)]),
       (''bonuses'', JObj [(''questionArray'', JArr []), (''count'', JInt 0)]),
       (''queryString'', JStr ''x'')]"
  let ?r = "\<lparr> tossups = [?t, ?t], bonuses = [], tossups_found = JInt 57,
             bonuses_found = JInt 0, query_string = JStr ''x'' \<rparr>"
  have r: "QueryResponse_from_json ?j = Inr ?r"
    by (simp add: QueryResponse_from_json_def tossup_example)
  from query_response_from_json [of ?j ?r, THEN mp, OF r]
  have e: "\<exists>tjs. length (tossups ?r) = length tjs \<and> map Tossup_from_json tjs = map Inr (tossups ?r)"
    by (elim exE conjE) (rule exI, rule conjI)
  show ?thesis
    by (rule exI [of _ ?r]) (use r e in \<open>intro conjI; simp\<close>)
qed

text \<open>
  Claim C8. When an item of the tossup array fails and the items before it succeed,
  \<open>QueryResponse.from_json\<close> fails with the exception of that item. When every tossup
  succeeds and an item of the bonus array fails after bonuses that succeed, it fails
  with the exception of that item. So when both arrays are there and an item of either
  fails, the call fails: the result is an exception and never an aggregate without the
  failing record.
\<close>

theorem query_response_first_failure:
  "(py_getitem j ''tossups'' = Inr tj \<and> py_getitem tj ''questionArray'' = Inr tarr
      \<and> py_iter tarr = Inr (pre @ x # post)
      \<and> (\<forall>y\<in>set pre. \<exists>t. Tossup_from_json y = Inr t) \<and> Tossup_from_json x = Inl e
    \<longrightarrow> QueryResponse_from_json j = Inl e)
   \<and> (py_getitem j ''tossups'' = Inr tj \<and> py_getitem tj ''questionArray'' = Inr tarr
      \<and> py_iter tarr = Inr tjs \<and> (\<forall>y\<in>set tjs. \<exists>t. Tossup_from_json y = Inr t)
      \<and> py_getitem j ''bonuses'' = Inr bj \<and> py_getitem bj ''questionArray'' = Inr barr
      \<and> py_iter barr = Inr (pre @ x # post)
      \<and> (\<forall>y\<in>set pre. \<exists>b. Bonus_from_json y = Inr b) \<and> Bonus_from_json x = Inl e
    \<longrightarrow> QueryResponse_from_json j = Inl e)
   \<and> (py_getitem j ''tossups'' = Inr tj \<and> py_getitem tj ''questionArray'' = Inr tarr
      \<and> py_iter tarr = Inr tjs
      \<and> py_getitem j ''bonuses'' = Inr bj \<and> py_getitem bj ''questionArray'' = Inr barr
      \<and> py_iter barr = Inr bjs
      \<and> ((\<exists>y\<in>set tjs. \<exists>e'. Tossup_from_json y = Inl e')
         \<or> (\<exists>y\<in>set bjs. \<exists>e'. Bonus_from_json y = Inl e'))
    \<longrightarrow> (\<exists>e'. QueryResponse_from_json j = Inl e'))"
proof (intro conjI impI)
  assume a: "py_getitem j ''tossups'' = Inr tj \<and> py_getitem tj ''questionArray'' = Inr tarr
      \<and> py_iter tarr = Inr (pre @ x # post)
      \<and> (\<forall>y\<in>set pre. \<exists>t. Tossup_from_json y = Inr t) \<and> Tossup_from_json x = Inl e"
  then have "map_res Tossup_from_json (pre @ x # post) = Inl e"
    by (intro map_res_first_failure) simp_all
  with a show "QueryResponse_from_json j = Inl e"
    by (simp add: QueryResponse_from_json_def)
next
  assume a: "py_getitem j ''tossups'' = Inr tj \<and> py_getitem tj ''questionArray'' = Inr tarr
      \<and> py_iter tarr = Inr tjs \<and> (\<forall>y\<in>set tjs. \<exists>t. Tossup_from_json y = Inr t)
      \<and> py_getitem j ''bonuses'' = Inr bj \<and> py_getitem bj ''questionArray'' = Inr barr
      \<and> py_iter barr = Inr (pre @ x # post)
      \<and> (\<forall>y\<in>set pre. \<exists>b. Bonus_from_json y = Inr b) \<and> Bonus_from_json x = Inl e"
  then obtain ts where ts: "map_res Tossup_from_json tjs = Inr ts"
    using map_res_all_ok [of tjs Tossup_from_json] by blast
  from a have "map_res Bonus_from_json (pre @ x # post) = Inl e"
    by (intro map_res_first_failure) simp_all
  with a ts show "QueryResponse_from_json j = Inl e"
    by (simp add: QueryResponse_from_json_def)
next
  assume a: "py_getitem j ''tossups'' = Inr tj \<and> py_getitem tj ''questionArray'' = Inr tarr
      \<and> py_iter tarr = Inr tjs
      \<and> py_getitem j ''bonuses'' = Inr bj \<and> py_getitem bj ''questionArray'' = Inr barr
      \<and> py_iter barr = Inr bjs
      \<and> ((\<exists>y\<in>set tjs. \<exists>e'. Tossup_from_json y = Inl e')
         \<or> (\<exists>y\<in>set bjs. \<exists>e'. Bonus_from_json y = Inl e'))"
  show "\<exists>e'. QueryResponse_from_json j = Inl e'"
  proof (cases "\<exists>y\<in>set tjs. \<exists>e'. Tossup_from_json y = Inl e'")
    case True
    then obtain p y q e' where "tjs = p @ y # q" "\<forall>z\<in>set p. \<exists>t. Tossup_from_json z = Inr t"
      "Tossup_from_json y = Inl e'"
      using first_failure_split [of tjs Tossup_from_json] by blast
    then have "map_res Tossup_from_json tjs = Inl e'"
      using map_res_first_failure [of p Tossup_from_json y e' q] by simp
    with a have "QueryResponse_from_json j = Inl e'"
      by (simp add: QueryResponse_from_json_def)
    then show ?thesis ..
  next
    case False
    then have "\<forall>y\<in>set tjs. \<exists>t. Tossup_from_json y = Inr t"
      by (metis sum.exhaust)
    then obtain ts where ts: "map_res Tossup_from_json tjs = Inr ts"
      using map_res_all_ok [of tjs Tossup_from_json] by blast
    from False a have "\<exists>y\<in>set bjs. \<exists>e'. Bonus_from_json y = Inl e'" by blast
    then obtain p y q e' where "bjs = p @ y # q" "\<forall>z\<in>set p. \<exists>t. Bonus_from_json z = Inr t"
      "Bonus_from_json y = Inl e'"
      using first_failure_split [of bjs Bonus_from_json] by blast
    then have "map_res Bonus_from_json bjs = Inl e'"
      using map_res_first_failure [of p Bonus_from_json y e' q] by simp
    with a ts have "QueryResponse_from_json j = Inl e'"
      by (simp add: QueryResponse_from_json_def)
    then show ?thesis ..
  qed
qed

text \<open>A tossup array whose second record has no \<open>question\<close>.\<close>

theorem query_response_first_failure_witness:
  "Tossup_from_json (JObj [(''answer'', JStr ''a'')]) = Inl (KeyError ''question'')
   \<and> QueryResponse_from_json (JObj
      [(''tossups'', JObj
          [(''questionArray'', JArr
              [JObj [(''question'', JStr ''q1''), (''answer'', JStr ''a''),
                 (''category'', JStr ''Science''), (''subcategory'', JStr ''Biology''),
                 (''setName'', JStr ''s''), (''setYear'', JInt 2020),
                 (''packetNumber'', JInt 1), (''questionNumber'', JInt 2),
                 (''difficulty'', JInt 3)],
               JObj [(''answer'', JStr ''a'')]]),
           (''count'', JInt 2)]),
       (''bonuses'', JObj [(''questionArray'', JArr []), (''count'', JInt 0)]),
       (''queryString'', JStr ''x'')]) = Inl (KeyError ''question'')"
proof -
  let ?good = "JObj [(''question'', JStr ''q1''), (''answer'', JStr ''a''),
                 (''category'', JStr ''Science''), (''subcategory'', JStr ''Biology''),
                 (''setName'', JStr ''s''), (''setYear'', JInt 2020),
                 (''packetNumber'', JInt 1), (''questionNumber'', JInt 2),
                 (''difficulty'', JInt 3)]"
  let ?bad = "JObj [(''answer'', JStr ''a'')]"
  let ?tj = "JObj [(''questionArray'', JArr [?good, ?bad]), (''count'', JInt 2)]"
  let ?j = "JObj
      [(''tossups'', ?tj),
       (''bonuses'', JObj [(''questionArray'', JArr []), (''count'', JInt 0)]),
       (''queryString'', JStr ''x'')]"
  have bad: "Tossup_from_json ?bad = Inl (KeyError ''question'')"
    by (simp add: Tossup_from_json_def)
  have h: "py_getitem ?j ''tossups'' = Inr ?tj
      \<and> py_getitem ?tj ''questionArray'' = Inr (JArr [?good, ?bad])
      \<and> py_iter (JArr [?good, ?bad]) = Inr ([?good] @ ?bad # [])
      \<and> (\<forall>y\<in>set [?good]. \<exists>t. Tossup_from_json y = Inr t)
      \<and> Tossup_from_json ?bad = Inl (KeyError ''question'')"
    using bad by (simp add: tossup_example)
  have "QueryResponse_from_json ?j = Inl (KeyError ''question'')"
    by (rule query_response_first_failure
        [of ?j ?tj "JArr [?good, ?bad]" "[?good]" ?bad "[]" "KeyError ''question''",
          THEN conjunct1, THEN mp, OF h])
  with bad show ?thesis by (intro conjI)
qed

section \<open>Plain-text rendering\<close>

lemma the_strs_map_JStr: "the_strs (map JStr ss) = Inr ss"
  by (induction ss) simp_all

text \<open>
  Claim C9, as the code has it. A tossup whose question is a string renders as that
  string. A bonus whose parts are strings renders as the parts joined by a single newline
  character, one part on each line. A query response renders as the tossup texts joined
  by a blank line (two newlines), then three newlines, then the bonus texts joined by a
  blank line.
\<close>

theorem rendering:
  "(question t = JStr s \<longrightarrow> Tossup_str t = Inr s)
   \<and> (parts b = map JStr ps \<longrightarrow> Bonus_str b = Inr (join [CHR 0x0A] ps))
   \<and> (map Tossup_str (tossups r) = map Inr ts \<and> map Bonus_str (bonuses r) = map Inr bs \<longrightarrow>
        QueryResponse_str r =
          Inr (join [CHR 0x0A, CHR 0x0A] ts @ [CHR 0x0A, CHR 0x0A, CHR 0x0A]
                @ join [CHR 0x0A, CHR 0x0A] bs))"
proof (intro conjI impI)
  assume "question t = JStr s"
  then show "Tossup_str t = Inr s" by (simp add: Tossup_str_def)
next
  assume "parts b = map JStr ps"
  then show "Bonus_str b = Inr (join [CHR 0x0A] ps)"
    by (simp add: Bonus_str_def py_join_def the_strs_map_JStr)
next
  assume "map Tossup_str (tossups r) = map Inr ts \<and> map Bonus_str (bonuses r) = map Inr bs"
  then have "map_res Tossup_str (tossups r) = Inr ts" "map_res Bonus_str (bonuses r) = Inr bs"
    by (simp_all add: map_res_Inr_iff)
  then show "QueryResponse_str r =
          Inr (join [CHR 0x0A, CHR 0x0A] ts @ [CHR 0x0A, CHR 0x0A, CHR 0x0A]
                @ join [CHR 0x0A, CHR 0x0A] bs)"
    by (simp add: QueryResponse_str_def)
qed

text \<open>
  Claim C9 as stated fails for a bonus: the two parts \<open>p1\<close> and \<open>p2\<close> render with one
  newline between them, not with a blank line.
\<close>

theorem rendering_counterexample:
  "Bonus_str \<lparr> leadin = JStr ''l'', parts = [JStr ''p1'', JStr ''p2''],
               formatted_answers = [JStr ''a1'', JStr ''a2''],
               answers = [JStr ''a1'', JStr ''a2''],
               category_b = SCIENCE, subcategory_b = BIOLOGY, set_b = JStr ''s'',
               year_b = JInt 2020, packet_number_b = JInt 1, question_number_b = JInt 2,
               difficulty_b = HS_REGS \<rparr>
     = Inr (''p1'' @ [CHR 0x0A] @ ''p2'')
   \<and> Bonus_str \<lparr> leadin = JStr ''l'', parts = [JStr ''p1'', JStr ''p2''],
               formatted_answers = [JStr ''a1'', JStr ''a2''],
               answers = [JStr ''a1'', JStr ''a2''],
               category_b = SCIENCE, subcategory_b = BIOLOGY, set_b = JStr ''s'',
               year_b = JInt 2020, packet_number_b = JInt 1, question_number_b = JInt 2,
               difficulty_b = HS_REGS \<rparr>
     \<noteq> Inr (''p1'' @ [CHR 0x0A, CHR 0x0A] @ ''p2'')"
  by (simp add: Bonus_str_def py_join_def)

text \<open>A tossup with the question \<open>q1\<close>.\<close>

theorem rendering_witness:
  "question (Tossup_init (JStr ''q1'') (JStr ''a'') (JStr ''a'') SCIENCE BIOLOGY (JStr ''s'')
            (JInt 2020) (JInt 1) (JInt 2) HS_REGS) = JStr ''q1''
   \<and> Tossup_str (Tossup_init (JStr ''q1'') (JStr ''a'') (JStr ''a'') SCIENCE BIOLOGY (JStr ''s'')
            (JInt 2020) (JInt 1) (JInt 2) HS_REGS) = Inr ''q1''"
proof -
  let ?t = "Tossup_init (JStr ''q1'') (JStr ''a'') (JStr ''a'') SCIENCE BIOLOGY (JStr ''s'')
            (JInt 2020) (JInt 1) (JInt 2) HS_REGS"
  have q: "question ?t = JStr ''q1''" by (simp add: Tossup_init_def)
  have "Tossup_str ?t = Inr ''q1''"
    by (rule rendering [of ?t "''q1''", THEN conjunct1, THEN mp, OF q])
  with q show ?thesis by (intro conjI)
qed

end
